theory Spec2Isabelle
  imports Complex_Main "HOL-Library.Word"
begin

section \<open>Teams call recorder: coordinator, capture worker and observer\<close>

text \<open>
  The extension has three scripts. The coordinator (\<^verbatim>\<open>src/background.js\<close>, lines
  1 to 320) owns the recording state machine. The capture worker, the script of the
  offscreen document (\<^verbatim>\<open>src/content.js\<close>, lines 677 to 915, the later of the two
  versions in that file), owns the media streams and the WAV encoder. The observer, the
  content script (\<^verbatim>\<open>src/content.js\<close>, lines 1 to 474, and the earlier version in
  \<^verbatim>\<open>unnamed/part_000\<close>), polls the page. Each script is embedded as functions over
  an explicit state record. A JavaScript string is a \<^typ>\<open>string\<close>, one \<^typ>\<open>char\<close>
  per code unit; \<^verbatim>\<open>undefined\<close> and \<^verbatim>\<open>null\<close> are \<^term>\<open>None\<close>; a thrown
  \<^verbatim>\<open>Error(msg)\<close> is \<^term>\<open>Inl msg\<close>.
\<close>

subsection \<open>Strings\<close>

type_synonym error = string

text \<open>\<^verbatim>\<open>x || d\<close> on a string that may be undefined: the default replaces every falsy value.\<close>

definition or_default :: "string option \<Rightarrow> string \<Rightarrow> string" where
  "or_default x d = (case x of None \<Rightarrow> d | Some s \<Rightarrow> if s = [] then d else s)"

text \<open>The class \<^verbatim>\<open>\s\<close> on code units below 256: tab to carriage return, space, no-break space.\<close>

definition is_space :: "char \<Rightarrow> bool" where
  "is_space c = ((of_char c :: nat) \<in> {9, 10, 11, 12, 13, 32, 160})"

text \<open>The class \<^verbatim>\<open>[\\/:*?"<>|]\<close> of \<^verbatim>\<open>sanitize\<close>.\<close>

definition is_unsafe :: "char \<Rightarrow> bool" where
  "is_unsafe c = (c \<in> {CHR 0x5C, CHR ''/'', CHR '':'', CHR ''*'', CHR ''?'', CHR 0x22,
                         CHR ''<'', CHR ''>'', CHR ''|''})"

text \<open>\<^verbatim>\<open>.replace(/\s+/g, "_")\<close>: every maximal run of white space becomes one underscore.\<close>

function collapse_spaces :: "string \<Rightarrow> string" where
  "collapse_spaces [] = []"
| "collapse_spaces (c # cs) =
     (if is_space c then CHR ''_'' # collapse_spaces (dropWhile is_space cs)
      else c # collapse_spaces cs)"
  by pat_completeness auto
termination
  by (relation "measure length") (auto simp: length_dropWhile_le less_Suc_eq_le)

definition sanitize :: "string \<Rightarrow> string" where
  "sanitize input =
     take 80 (collapse_spaces (map (\<lambda>c. if is_unsafe c then CHR ''_'' else c) input))"

text \<open>\<^verbatim>\<open>String(n)\<close> for a non-negative integer, and \<^verbatim>\<open>.padStart(2, "0")\<close>.\<close>

definition digit_char :: "nat \<Rightarrow> char" where
  "digit_char d = char_of (48 + d)"

fun string_of_nat :: "nat \<Rightarrow> string" where
  "string_of_nat n =
     (if n < 10 then [digit_char n] else string_of_nat (n div 10) @ [digit_char (n mod 10)])"

definition padStart2 :: "string \<Rightarrow> string" where
  "padStart2 s = replicate (2 - length s) CHR ''0'' @ s"

subsection \<open>File names (background.js)\<close>

text \<open>The fields \<^verbatim>\<open>makeFilename\<close> reads from \<^verbatim>\<open>new Date()\<close>; the month counts from 0.\<close>

record date =
  getFullYear :: nat
  getMonth :: nat
  getDate :: nat
  getHours :: nat
  getMinutes :: nat

definition normalizeExtension :: "string option \<Rightarrow> string" where
  "normalizeExtension format =
     (if format = Some ''wav'' then ''wav''
      else if format = Some ''mp3'' then ''webm''
      else ''webm'')"

definition makeFilename :: "date \<Rightarrow> string \<Rightarrow> string option \<Rightarrow> string option \<Rightarrow> string" where
  "makeFilename now title format folder =
     (let safeTitle = sanitize (or_default (Some title) ''TeamsCall'');
          yyyy = string_of_nat (getFullYear now);
          mm = padStart2 (string_of_nat (getMonth now + 1));
          dd = padStart2 (string_of_nat (getDate now));
          hh = padStart2 (string_of_nat (getHours now));
          min = padStart2 (string_of_nat (getMinutes now));
          ext = normalizeExtension format
      in sanitize (or_default folder ''TeamsRecordings'') @ ''/Teams_'' @ yyyy @ ''-'' @ mm @ ''-''
           @ dd @ ''_'' @ hh @ ''-'' @ min @ ''_'' @ safeTitle @ ''.'' @ ext)"

text \<open>
  The pattern \<^verbatim>\<open>/\.[^.]+$/\<close> matches at the last dot of the name when at least one code
  unit follows it. \<^term>\<open>match_ext\<close> returns what stands before that dot.
\<close>

definition match_ext :: "string \<Rightarrow> string option" where
  "match_ext filename =
     (let r = rev filename;
          tail = takeWhile (\<lambda>c. c \<noteq> CHR ''.'') r;
          rest = dropWhile (\<lambda>c. c \<noteq> CHR ''.'') r
      in if rest = [] \<or> tail = [] then None else Some (rev (tl rest)))"

definition applyFormatToFilename :: "string \<Rightarrow> string option \<Rightarrow> string" where
  "applyFormatToFilename filename format =
     (let ext = normalizeExtension format
      in if filename = [] then ''TeamsRecordings/TeamsCall.'' @ ext
         else case match_ext filename of
                Some stem \<Rightarrow> stem @ ''.'' @ ext
              | None \<Rightarrow> filename @ ''.'' @ ext)"

text \<open>The extension of a file name, in the usual sense: what follows its last dot.\<close>

definition file_ext :: "string \<Rightarrow> string" where
  "file_ext filename = rev (takeWhile (\<lambda>c. c \<noteq> CHR ''.'') (rev filename))"

subsection \<open>The coordinator's state (background.js)\<close>

datatype recording_state = Idle | Recording | Paused

text \<open>
  The object \<^verbatim>\<open>state\<close>. Tab and download identifiers are integers, times are
  milliseconds since the epoch, \<^verbatim>\<open>null\<close> is \<^term>\<open>None\<close>.
\<close>

record state =
  callActive :: bool
  callTabId :: "nat option"
  callTitle :: string
  participantCount :: "nat option"
  recordingState :: recording_state
  recordingStartedAt :: "int option"
  lastError :: string
  currentFilename :: string
  latestDownloadId :: "nat option"

definition initial_state :: state where
  "initial_state =
     \<lparr>callActive = False, callTabId = None, callTitle = [], participantCount = None,
      recordingState = Idle, recordingStartedAt = None, lastError = [],
      currentFilename = [], latestDownloadId = None\<rparr>"

text \<open>The record \<^verbatim>\<open>handleFinalized\<close> builds for the history and the sidecar file.\<close>

record recording =
  rec_id :: string
  rec_filename :: string
  rec_downloadId :: nat
  rec_createdAt :: int
  rec_startedAt :: "int option"
  rec_endedAt :: int
  rec_durationSec :: int
  rec_meetingTitle :: string
  rec_participantCount :: "nat option"
  rec_notes :: string
  rec_format :: string
  rec_folder :: "string option"

text \<open>
  \<^verbatim>\<open>chrome.storage.local\<close>: one field per key the scripts use, \<^term>\<open>None\<close> for a key
  that is not stored (for \<^verbatim>\<open>recordings\<close> also for a value that is not an array).
\<close>

record storage =
  stored_sourceMode :: "string option"
  stored_format :: "string option"
  stored_folder :: "string option"
  stored_beepOnStart :: "bool option"
  stored_consentAccepted :: "bool option"
  stored_onScreenBadge :: "bool option"
  stored_notes :: "string option"
  stored_recordings :: "recording list option"
  stored_runtimeState :: "state option"

subsection \<open>Messages\<close>

text \<open>What the coordinator receives through \<^verbatim>\<open>chrome.runtime.onMessage\<close>.\<close>

datatype message =
    CALL_STATUS_UPDATE bool string "nat option"
  | GET_STATE
  | START_RECORDING "string option"
  | PAUSE_RECORDING
  | RESUME_RECORDING
  | STOP_RECORDING
  | RECORDING_CHUNK_READY
  | RECORDING_FINALIZED "string option" string
  | LIST_RECORDINGS
  | DELETE_RECORDING "string option"
  | Other_type
  | Untyped

text \<open>What the coordinator sends to the capture worker.\<close>

record payload =
  p_streamId :: "string option"
  p_sourceMode :: string
  p_format :: "string option"
  p_beepOnStart :: "bool option"
  p_startedAt :: "int option"
  p_meetingTitle :: string
  p_participantCount :: "nat option"

datatype offscreen_message =
    OFFSCREEN_START payload
  | OFFSCREEN_PAUSE
  | OFFSCREEN_RESUME
  | OFFSCREEN_STOP

text \<open>The worker's answer: \<^verbatim>\<open>{ ok: true }\<close> or \<^verbatim>\<open>{ ok: false, error }\<close>.\<close>

datatype reply = Reply_ok | Reply_error error

text \<open>The value a handler returns, and the response the listener sends to the caller.\<close>

datatype result =
    Undefined
  | Null
  | True_result
  | State_result state
  | Recordings_result "recording list"

datatype response = Response_ok result | Response_error error

subsection \<open>Effects\<close>

text \<open>
  Every call of a Chrome API is recorded, in order, in \<^verbatim>\<open>calls\<close>; what the call
  answers (a value, or the rejection of its promise) is given by the environment.
\<close>

datatype download_source = Data_url string | Json_of recording

datatype call =
    SetBadgeText string
  | SetBadgeBackgroundColor string
  | StorageSet_runtimeState state
  | StorageSet_notes string
  | StorageSet_recordings "recording list" "string option"
  | StorageGet
  | TabsSendMessage_STATE_CHANGED nat state
  | RuntimeSendMessage offscreen_message
  | TabsQuery
  | GetMediaStreamId nat
  | GetContexts
  | HasDocument
  | CreateDocument
  | DownloadsDownload download_source string
  | DownloadsRemoveFile nat
  | DownloadsErase nat

record world =
  cstate :: state
  store :: storage
  calls :: "call list"

text \<open>The outcomes of the four calls of one \<^verbatim>\<open>publishState\<close>.\<close>

record publish_env =
  setBadgeText_res :: "error + unit"
  setBadgeBackgroundColor_res :: "error + unit"
  set_runtimeState_res :: "error + unit"
  tabs_sendMessage_res :: "error + unit"

text \<open>
  The outcomes of the calls one message can make, the clock and the random identifier.
  \<^verbatim>\<open>publish1\<close> and \<^verbatim>\<open>publish2\<close> answer the first and the second
  \<^verbatim>\<open>publishState\<close> of a handler, \<^verbatim>\<open>publish_catch\<close> the one in the listener's
  \<^verbatim>\<open>catch\<close>. \<^verbatim>\<open>storage_get_res\<close> answers the first \<^verbatim>\<open>chrome.storage.local.get\<close>
  of a handler and \<^verbatim>\<open>storage_get_recordings_res\<close> the second one, the read of the
  history in \<^verbatim>\<open>handleFinalized\<close>: the promise of a read resolves or is rejected.
\<close>

record env =
  new_Date :: date
  Date_now :: int
  randomUUID :: string
  tabs_query_res :: "error + nat option list"
  getMediaStreamId_res :: "error + string"
  getContexts_defined :: bool
  getContexts_res :: "error + nat"
  hasDocument_res :: "error + bool"
  createDocument_res :: "error + unit"
  storage_get_res :: "error + unit"
  storage_get_recordings_res :: "error + unit"
  storage_set_res :: "error + unit"
  sendMessage_res :: "offscreen_message \<Rightarrow> error + reply"
  download_artifact_res :: "error + nat"
  download_sidecar_res :: "error + nat"
  removeFile_res :: "error + unit"
  erase_res :: "error + unit"
  publish1 :: publish_env
  publish2 :: publish_env
  publish_catch :: publish_env

text \<open>An \<^verbatim>\<open>async\<close> function: it reads and writes the world and returns or throws.\<close>

type_synonym ('w, 'a) io = "'w \<Rightarrow> (error + 'a) \<times> 'w"

definition io_return :: "'a \<Rightarrow> ('w, 'a) io" where
  "io_return x w = (Inr x, w)"

definition io_throw :: "error \<Rightarrow> ('w, 'a) io" where
  "io_throw e w = (Inl e, w)"

definition io_bind :: "('w, 'a) io \<Rightarrow> ('a \<Rightarrow> ('w, 'b) io) \<Rightarrow> ('w, 'b) io" where
  "io_bind m f w = (case m w of (Inl e, w') \<Rightarrow> (Inl e, w') | (Inr x, w') \<Rightarrow> f x w')"

definition try_catch :: "('w, 'a) io \<Rightarrow> (error \<Rightarrow> ('w, 'a) io) \<Rightarrow> ('w, 'a) io" where
  "try_catch m h w = (case m w of (Inl e, w') \<Rightarrow> h e w' | (Inr x, w') \<Rightarrow> (Inr x, w'))"

text \<open>\<^verbatim>\<open>try { m } finally { fin }\<close>: \<^verbatim>\<open>fin\<close> always runs, and its own failure wins.\<close>

definition try_finally :: "('w, 'a) io \<Rightarrow> ('w, unit) io \<Rightarrow> ('w, 'a) io" where
  "try_finally m fin w =
     (case m w of (r, w') \<Rightarrow>
        (case fin w' of (Inl e, w'') \<Rightarrow> (Inl e, w'') | (Inr u, w'') \<Rightarrow> (r, w'')))"

definition get_state :: "(world, state) io" where
  "get_state w = (Inr (cstate w), w)"

text \<open>
  \<^verbatim>\<open>chrome.storage.local.get\<close>: the promise resolves to what is stored at the time
  of the call, or it is rejected.
\<close>

definition storage_get :: "error + unit \<Rightarrow> (world, storage) io" where
  "storage_get outcome w =
     (case outcome of
        Inl e \<Rightarrow> (Inl e, w\<lparr>calls := calls w @ [StorageGet]\<rparr>)
      | Inr u \<Rightarrow> (Inr (store w), w\<lparr>calls := calls w @ [StorageGet]\<rparr>))"

definition modify_state :: "(state \<Rightarrow> state) \<Rightarrow> (world, unit) io" where
  "modify_state f w = (Inr (), w\<lparr>cstate := f (cstate w)\<rparr>)"

definition api :: "call \<Rightarrow> error + 'a \<Rightarrow> (world, 'a) io" where
  "api c outcome w = (outcome, w\<lparr>calls := calls w @ [c]\<rparr>)"

text \<open>\<^verbatim>\<open>chrome.storage.local.set\<close>: the store changes when the call succeeds.\<close>

definition storage_set :: "call \<Rightarrow> error + unit \<Rightarrow> (storage \<Rightarrow> storage) \<Rightarrow> (world, unit) io" where
  "storage_set c outcome f w =
     (case outcome of
        Inl e \<Rightarrow> (Inl e, w\<lparr>calls := calls w @ [c]\<rparr>)
      | Inr u \<Rightarrow> (Inr (), w\<lparr>store := f (store w), calls := calls w @ [c]\<rparr>))"

subsection \<open>The coordinator's handlers (background.js)\<close>

definition badge_label :: "state \<Rightarrow> string" where
  "badge_label st =
     (if recordingState st = Recording then ''REC'' else if callActive st then ''CALL'' else [])"

definition badge_color :: "state \<Rightarrow> string" where
  "badge_color st =
     (if recordingState st = Recording then ''#d91e18''
      else if callActive st then ''#1b8f3e'' else ''#7a7a7a'')"

text \<open>The push to the call tab is inside \<^verbatim>\<open>try\<close>/\<^verbatim>\<open>catch\<close>: its failure is dropped.\<close>

definition publishState :: "publish_env \<Rightarrow> (world, unit) io" where
  "publishState pe =
     io_bind get_state (\<lambda>st.
     io_bind (api (SetBadgeText (badge_label st)) (setBadgeText_res pe)) (\<lambda>u.
     io_bind (api (SetBadgeBackgroundColor (badge_color st)) (setBadgeBackgroundColor_res pe)) (\<lambda>u.
     io_bind (storage_set (StorageSet_runtimeState st) (set_runtimeState_res pe)
                (\<lambda>sto. sto\<lparr>stored_runtimeState := Some st\<rparr>)) (\<lambda>u.
     try_catch
       (case callTabId st of
          None \<Rightarrow> io_return ()
        | Some tab \<Rightarrow> api (TabsSendMessage_STATE_CHANGED tab st) (tabs_sendMessage_res pe))
       (\<lambda>e. io_return ())))))"

definition resolveTeamsTabId :: "env \<Rightarrow> (world, nat option) io" where
  "resolveTeamsTabId ev =
     io_bind get_state (\<lambda>st.
       case callTabId st of
         Some tab \<Rightarrow> io_return (Some tab)
       | None \<Rightarrow>
           io_bind (api TabsQuery (tabs_query_res ev)) (\<lambda>tabs.
             io_return (case tabs of [] \<Rightarrow> None | t # ts \<Rightarrow> t)))"

definition ensureOffscreenDocument :: "env \<Rightarrow> (world, unit) io" where
  "ensureOffscreenDocument ev =
     io_bind
       (if getContexts_defined ev
        then io_bind (api GetContexts (getContexts_res ev)) (\<lambda>n. io_return (0 < n))
        else api HasDocument (hasDocument_res ev))
       (\<lambda>exists. if exists then io_return () else api CreateDocument (createDocument_res ev))"

definition stopRecording :: "env \<Rightarrow> (world, result) io" where
  "stopRecording ev =
     io_bind get_state (\<lambda>st.
       if recordingState st = Idle then io_return Undefined
       else io_bind (api (RuntimeSendMessage OFFSCREEN_STOP) (sendMessage_res ev OFFSCREEN_STOP)) (\<lambda>r.
              io_return Undefined))"

definition pauseRecording :: "env \<Rightarrow> (world, result) io" where
  "pauseRecording ev =
     io_bind get_state (\<lambda>st.
       if recordingState st \<noteq> Recording then io_return Undefined
       else io_bind (api (RuntimeSendMessage OFFSCREEN_PAUSE) (sendMessage_res ev OFFSCREEN_PAUSE)) (\<lambda>r.
            io_bind (modify_state (\<lambda>s. s\<lparr>recordingState := Paused\<rparr>)) (\<lambda>u.
            io_bind (publishState (publish1 ev)) (\<lambda>u.
              io_return Undefined))))"

definition resumeRecording :: "env \<Rightarrow> (world, result) io" where
  "resumeRecording ev =
     io_bind get_state (\<lambda>st.
       if recordingState st \<noteq> Paused then io_return Undefined
       else io_bind (api (RuntimeSendMessage OFFSCREEN_RESUME) (sendMessage_res ev OFFSCREEN_RESUME)) (\<lambda>r.
            io_bind (modify_state (\<lambda>s. s\<lparr>recordingState := Recording\<rparr>)) (\<lambda>u.
            io_bind (publishState (publish1 ev)) (\<lambda>u.
              io_return Undefined))))"

text \<open>
  \<^verbatim>\<open>sender.tab?.id || state.callTabId\<close>: a missing identifier and the identifier 0 are
  both falsy.
\<close>

definition handleCallStatus :: "env \<Rightarrow> nat option \<Rightarrow> bool \<Rightarrow> string \<Rightarrow> nat option \<Rightarrow> (world, result) io" where
  "handleCallStatus ev sender_tab active meetingTitle count =
     io_bind (modify_state (\<lambda>s. s\<lparr>
         callActive := active,
         callTabId := (case sender_tab of
                         None \<Rightarrow> callTabId s
                       | Some tab \<Rightarrow> if tab = 0 then callTabId s else Some tab),
         callTitle := meetingTitle,
         participantCount := count\<rparr>)) (\<lambda>u.
     io_bind (publishState (publish1 ev)) (\<lambda>u.
     io_bind get_state (\<lambda>st.
       if \<not> callActive st \<and> recordingState st \<noteq> Idle
       then io_bind (stopRecording ev) (\<lambda>r. io_return Undefined)
       else io_return Undefined)))"

text \<open>
  \<^verbatim>\<open>startRecording\<close>. The awaited \<^verbatim>\<open>sendMessage\<close> resolves to the answer of
  the worker's listener and is rejected when no listener answers; the \<^verbatim>\<open>catch\<close>
  runs on a rejection, and the resolved value is not read.
\<close>

definition startRecording :: "env \<Rightarrow> string \<Rightarrow> (world, result) io" where
  "startRecording ev notes =
     io_bind (storage_get (storage_get_res ev)) (\<lambda>settings.
     if stored_consentAccepted settings \<noteq> Some True
     then io_throw ''Consent disclaimer must be accepted.''
     else
     io_bind get_state (\<lambda>st.
     if recordingState st \<noteq> Idle
     then io_throw ''Recording already in progress.''
     else
     io_bind (resolveTeamsTabId ev) (\<lambda>tabId.
     case (case tabId of None \<Rightarrow> None | Some t \<Rightarrow> if t = 0 then None else Some t) of
       None \<Rightarrow> io_throw ''No active Teams call tab found.''
     | Some tab \<Rightarrow>
     io_bind (modify_state (\<lambda>s. s\<lparr>callTabId := Some tab\<rparr>)) (\<lambda>u.
     let sourceMode = or_default (stored_sourceMode settings) ''both'' in
     io_bind (if sourceMode = ''mic'' then io_return None
              else io_bind (api (GetMediaStreamId tab) (getMediaStreamId_res ev))
                     (\<lambda>sid. io_return (Some sid))) (\<lambda>streamId.
     io_bind (ensureOffscreenDocument ev) (\<lambda>u.
     io_bind (modify_state (\<lambda>s. s\<lparr>
         recordingState := Recording,
         recordingStartedAt := Some (Date_now ev),
         lastError := [],
         currentFilename :=
           makeFilename (new_Date ev) (callTitle s) (stored_format settings)
             (stored_folder settings)\<rparr>)) (\<lambda>u.
     io_bind (storage_set (StorageSet_notes notes) (storage_set_res ev)
                (\<lambda>sto. sto\<lparr>stored_notes := Some notes\<rparr>)) (\<lambda>u.
     io_bind (publishState (publish1 ev)) (\<lambda>u.
     io_bind get_state (\<lambda>st'.
     let start = OFFSCREEN_START
           \<lparr>p_streamId = streamId,
            p_sourceMode = sourceMode,
            p_format = stored_format settings,
            p_beepOnStart = stored_beepOnStart settings,
            p_startedAt = recordingStartedAt st',
            p_meetingTitle = or_default (Some (callTitle st')) ''TeamsCall'',
            p_participantCount = participantCount st'\<rparr>
     in
     try_catch
       (io_bind (api (RuntimeSendMessage start) (sendMessage_res ev start))
          (\<lambda>r. io_return Undefined))
       (\<lambda>e.
          io_bind (modify_state (\<lambda>s. s\<lparr>
              recordingState := Idle,
              recordingStartedAt := None,
              currentFilename := []\<rparr>)) (\<lambda>u.
          io_bind (publishState (publish2 ev)) (\<lambda>u.
            io_throw e)))))))))))))"

text \<open>
  The name \<^verbatim>\<open>handleFinalized\<close> saves under: the extension of the negotiated format
  (the message's \<^verbatim>\<open>format\<close>, \<^verbatim>\<open>"webm"\<close> when it is missing) applied to the name
  chosen at start, or to a fresh name when none is stored.
\<close>

definition finalFilename :: "env \<Rightarrow> state \<Rightarrow> storage \<Rightarrow> string option \<Rightarrow> string" where
  "finalFilename ev st settings format =
     (let finalizedFormat = or_default format ''webm'';
          fallbackFilename =
            makeFilename (new_Date ev) (callTitle st) (Some finalizedFormat) (stored_folder settings)
      in applyFormatToFilename
           (or_default (Some (currentFilename st)) fallbackFilename) (Some finalizedFormat))"

text \<open>
  \<^verbatim>\<open>Math.max(0, Math.round((endedAt - (startedAt || endedAt)) / 1000))\<close>: rounding
  to the nearest integer, a half upwards.
\<close>

definition durationSec :: "int option \<Rightarrow> int \<Rightarrow> int" where
  "durationSec startedAt endedAt =
     (let started = (case startedAt of
                       None \<Rightarrow> endedAt
                     | Some t \<Rightarrow> if t = 0 then endedAt else t)
      in max 0 ((endedAt - started + 500) div 1000))"

definition make_record :: "env \<Rightarrow> state \<Rightarrow> storage \<Rightarrow> string \<Rightarrow> string \<Rightarrow> nat \<Rightarrow> recording" where
  "make_record ev st settings finalizedFormat filename downloadId =
     (let endedAt = Date_now ev
      in \<lparr>rec_id = randomUUID ev,
          rec_filename = filename,
          rec_downloadId = downloadId,
          rec_createdAt = endedAt,
          rec_startedAt = recordingStartedAt st,
          rec_endedAt = endedAt,
          rec_durationSec = durationSec (recordingStartedAt st) endedAt,
          rec_meetingTitle = or_default (Some (callTitle st)) ''TeamsCall'',
          rec_participantCount = participantCount st,
          rec_notes = or_default (stored_notes settings) [],
          rec_format = finalizedFormat,
          rec_folder = stored_folder settings\<rparr>)"

text \<open>\<^verbatim>\<open>finalFilename.replace(/\.[^.]+$/, "")\<close> followed by \<^verbatim>\<open>.json\<close>.\<close>

definition metadataName :: "string \<Rightarrow> string" where
  "metadataName filename =
     (case match_ext filename of Some stem \<Rightarrow> stem | None \<Rightarrow> filename) @ ''.json''"

definition reset_recording :: "state \<Rightarrow> state" where
  "reset_recording s =
     s\<lparr>recordingState := Idle, recordingStartedAt := None, currentFilename := []\<rparr>"

text \<open>
  \<^verbatim>\<open>handleFinalized\<close>. The settings are read (line 164) before the \<^verbatim>\<open>try\<close> block
  (line 172): when that read is rejected the handler throws and the \<^verbatim>\<open>finally\<close>
  block does not run. The history is read inside the block.
\<close>

definition handleFinalized :: "env \<Rightarrow> string option \<Rightarrow> string \<Rightarrow> (world, result) io" where
  "handleFinalized ev format blobDataUrl =
     io_bind (storage_get (storage_get_res ev)) (\<lambda>settings.
     io_bind get_state (\<lambda>st0.
     let finalizedFormat = or_default format ''webm'';
         filename = finalFilename ev st0 settings format
     in
     try_finally
       (io_bind (api (DownloadsDownload (Data_url blobDataUrl) filename)
                   (download_artifact_res ev)) (\<lambda>downloadId.
        io_bind (modify_state (\<lambda>s. s\<lparr>latestDownloadId := Some downloadId\<rparr>)) (\<lambda>u.
        io_bind get_state (\<lambda>st.
        let record = make_record ev st settings finalizedFormat filename downloadId in
        io_bind (api (DownloadsDownload (Json_of record) (metadataName filename))
                   (download_sidecar_res ev)) (\<lambda>sidecarId.
        io_bind (storage_get (storage_get_recordings_res ev)) (\<lambda>existing.
        let recordings =
              record # (case stored_recordings existing of None \<Rightarrow> [] | Some rs \<Rightarrow> rs)
        in
        io_bind (storage_set (StorageSet_recordings (take 200 recordings) (Some []))
                   (storage_set_res ev)
                   (\<lambda>sto. sto\<lparr>stored_recordings := Some (take 200 recordings),
                                stored_notes := Some []\<rparr>)) (\<lambda>u.
          io_return Undefined)))))))
       (io_bind (modify_state reset_recording) (\<lambda>u.
          publishState (publish1 ev)))))"

definition listRecordings :: "env \<Rightarrow> (world, result) io" where
  "listRecordings ev =
     io_bind (storage_get (storage_get_res ev)) (\<lambda>data.
       io_return (Recordings_result
         (case stored_recordings data of None \<Rightarrow> [] | Some rs \<Rightarrow> rs)))"

definition deleteRecording :: "env \<Rightarrow> string option \<Rightarrow> (world, result) io" where
  "deleteRecording ev ident =
     (if or_default ident [] = [] then io_return Undefined
      else
        io_bind (storage_get (storage_get_res ev)) (\<lambda>data.
        let recordings = (case stored_recordings data of None \<Rightarrow> [] | Some rs \<Rightarrow> rs);
            target = find (\<lambda>r. Some (rec_id r) = ident) recordings;
            remaining = filter (\<lambda>r. Some (rec_id r) \<noteq> ident) recordings
        in
        io_bind
          (case target of
             None \<Rightarrow> io_return ()
           | Some r \<Rightarrow>
               if rec_downloadId r = 0 then io_return ()
               else
                 io_bind (try_catch (api (DownloadsRemoveFile (rec_downloadId r)) (removeFile_res ev))
                            (\<lambda>e. io_return ())) (\<lambda>u.
                   api (DownloadsErase (rec_downloadId r)) (erase_res ev))) (\<lambda>u.
        io_bind (storage_set (StorageSet_recordings remaining None) (storage_set_res ev)
                   (\<lambda>sto. sto\<lparr>stored_recordings := Some remaining\<rparr>)) (\<lambda>u.
          io_return Undefined))))"

definition handleMessage :: "env \<Rightarrow> nat option \<Rightarrow> message \<Rightarrow> (world, result) io" where
  "handleMessage ev sender_tab msg =
     (case msg of
        CALL_STATUS_UPDATE active meetingTitle count \<Rightarrow>
          handleCallStatus ev sender_tab active meetingTitle count
      | GET_STATE \<Rightarrow> io_bind get_state (\<lambda>st. io_return (State_result st))
      | START_RECORDING notes \<Rightarrow> startRecording ev (or_default notes [])
      | PAUSE_RECORDING \<Rightarrow> pauseRecording ev
      | RESUME_RECORDING \<Rightarrow> resumeRecording ev
      | STOP_RECORDING \<Rightarrow> stopRecording ev
      | RECORDING_CHUNK_READY \<Rightarrow> io_return True_result
      | RECORDING_FINALIZED format blobDataUrl \<Rightarrow> handleFinalized ev format blobDataUrl
      | LIST_RECORDINGS \<Rightarrow> listRecordings ev
      | DELETE_RECORDING ident \<Rightarrow> deleteRecording ev ident
      | Other_type \<Rightarrow> io_return Null
      | Untyped \<Rightarrow> io_return Null)"

text \<open>\<^verbatim>\<open>error?.message || String(error)\<close> for an \<^verbatim>\<open>Error\<close> with the given message.\<close>

definition error_text :: "error \<Rightarrow> string" where
  "error_text e = (if e = [] then ''Error'' else e)"

text \<open>
  The listener of \<^verbatim>\<open>chrome.runtime.onMessage\<close>. A message without a type gets no
  response. A failure of the handler is written to \<^verbatim>\<open>lastError\<close>, published (the
  promise of this \<^verbatim>\<open>publishState\<close> is not awaited, so its failure is dropped) and
  sent back as the error response.
\<close>

definition onMessage :: "env \<Rightarrow> nat option \<Rightarrow> message \<Rightarrow> world \<Rightarrow> response option \<times> world" where
  "onMessage ev sender_tab msg w =
     (if msg = Untyped then (None, w)
      else case handleMessage ev sender_tab msg w of
             (Inr r, w') \<Rightarrow> (Some (Response_ok r), w')
           | (Inl e, w') \<Rightarrow>
               (let w1 = w'\<lparr>cstate := (cstate w')\<lparr>lastError := error_text e\<rparr>\<rparr>;
                    w2 = snd (publishState (publish_catch ev) w1)
                in (Some (Response_error (lastError (cstate w2))), w2)))"

text \<open>
  The listener of \<^verbatim>\<open>chrome.commands.onCommand\<close> (the keyboard shortcuts). What a
  handler throws here is an unhandled rejection: nothing is written to \<^verbatim>\<open>lastError\<close>.
\<close>

definition onCommand :: "env \<Rightarrow> string \<Rightarrow> world \<Rightarrow> world" where
  "onCommand ev command w =
     (let w1 = (if command = ''toggle-recording''
                then (if recordingState (cstate w) = Idle then snd (startRecording ev [] w)
                      else snd (stopRecording ev w))
                else w)
      in if command = ''pause-resume-recording''
         then (if recordingState (cstate w1) = Recording then snd (pauseRecording ev w1)
               else if recordingState (cstate w1) = Paused then snd (resumeRecording ev w1)
               else w1)
         else w1)"

text \<open>
  The worlds the listeners reach from the script's initial state when the handlers do
  not overlap: one message or command is handled to its end before the next, each in
  an environment of its own, and the popup may write the settings in between.
\<close>

inductive reachable_serially :: "world \<Rightarrow> bool" where
  serially_init: "cstate w = initial_state \<Longrightarrow> calls w = [] \<Longrightarrow> reachable_serially w"
| serially_message:
    "reachable_serially w \<Longrightarrow> reachable_serially (snd (onMessage ev sender_tab msg w))"
| serially_command: "reachable_serially w \<Longrightarrow> reachable_serially (onCommand ev command w)"
| serially_settings: "reachable_serially w \<Longrightarrow> reachable_serially (w\<lparr>store := sto\<rparr>)"

text \<open>
  The listener (lines 33 to 43) starts the handler of every message at once and keeps no
  queue: a handler that waits at an \<^verbatim>\<open>await\<close> lets the next message be handled.
  \<^verbatim>\<open>pauseRecording\<close> tests the state (line 141), waits for the answer to
  \<^verbatim>\<open>OFFSCREEN_PAUSE\<close> (line 142) and writes \<^verbatim>\<open>paused\<close> afterwards (lines 143
  and 144); \<^verbatim>\<open>resumeRecording\<close> does the same with \<^verbatim>\<open>recording\<close> (lines 148
  to 151). \<^verbatim>\<open>pauseRecording_resumed\<close> and \<^verbatim>\<open>resumeRecording_resumed\<close> are what runs
  once the answer has come.
\<close>

definition pauseRecording_resumed :: "env \<Rightarrow> (world, result) io" where
  "pauseRecording_resumed ev =
     io_bind (modify_state (\<lambda>s. s\<lparr>recordingState := Paused\<rparr>)) (\<lambda>u.
     io_bind (publishState (publish1 ev)) (\<lambda>u.
       io_return Undefined))"

definition resumeRecording_resumed :: "env \<Rightarrow> (world, result) io" where
  "resumeRecording_resumed ev =
     io_bind (modify_state (\<lambda>s. s\<lparr>recordingState := Recording\<rparr>)) (\<lambda>u.
     io_bind (publishState (publish1 ev)) (\<lambda>u.
       io_return Undefined))"

text \<open>What the listener does when the handler it awaits has returned or thrown.\<close>

definition answer :: "env \<Rightarrow> (error + result) \<times> world \<Rightarrow> response option \<times> world" where
  "answer ev outcome =
     (case outcome of
        (Inr r, w') \<Rightarrow> (Some (Response_ok r), w')
      | (Inl e, w') \<Rightarrow>
          (let w1 = w'\<lparr>cstate := (cstate w')\<lparr>lastError := error_text e\<rparr>\<rparr>;
               w2 = snd (publishState (publish_catch ev) w1)
           in (Some (Response_error (lastError (cstate w2))), w2)))"

text \<open>
  Two messages that overlap. \<^verbatim>\<open>PAUSE_RECORDING\<close> arrives, passes the test and sends
  \<^verbatim>\<open>OFFSCREEN_PAUSE\<close>; while it waits, another message is handled to its end in the
  environment \<open>ev'\<close>; then the answer comes and the pause handler goes on. When the
  test fails the pause handler has returned before the other message is handled.
  \<^verbatim>\<open>RESUME_RECORDING\<close> likewise.
\<close>

definition pause_overlapped :: "env \<Rightarrow> env \<Rightarrow> nat option \<Rightarrow> message \<Rightarrow> world \<Rightarrow> world" where
  "pause_overlapped ev ev' sender_tab msg w =
     (if recordingState (cstate w) \<noteq> Recording then snd (onMessage ev' sender_tab msg w)
      else
        case api (RuntimeSendMessage OFFSCREEN_PAUSE) (sendMessage_res ev OFFSCREEN_PAUSE) w of
          (r, w1) \<Rightarrow>
            (let w2 = snd (onMessage ev' sender_tab msg w1)
             in snd (answer ev (case r of
                                  Inl e \<Rightarrow> (Inl e, w2)
                                | Inr reply \<Rightarrow> pauseRecording_resumed ev w2))))"

definition resume_overlapped :: "env \<Rightarrow> env \<Rightarrow> nat option \<Rightarrow> message \<Rightarrow> world \<Rightarrow> world" where
  "resume_overlapped ev ev' sender_tab msg w =
     (if recordingState (cstate w) \<noteq> Paused then snd (onMessage ev' sender_tab msg w)
      else
        case api (RuntimeSendMessage OFFSCREEN_RESUME) (sendMessage_res ev OFFSCREEN_RESUME) w of
          (r, w1) \<Rightarrow>
            (let w2 = snd (onMessage ev' sender_tab msg w1)
             in snd (answer ev (case r of
                                  Inl e \<Rightarrow> (Inl e, w2)
                                | Inr reply \<Rightarrow> resumeRecording_resumed ev w2))))"

text \<open>
  Worlds the listeners reach when handlers may overlap: the steps above, and a message
  handled while a pause or a resume waits for its answer. These are some of the
  schedules the listener allows (a handler waits at every \<^verbatim>\<open>await\<close>), so every world
  here can be reached.
\<close>

inductive reachable_overlapping :: "world \<Rightarrow> bool" where
  overlapping_init: "cstate w = initial_state \<Longrightarrow> calls w = [] \<Longrightarrow> reachable_overlapping w"
| overlapping_message:
    "reachable_overlapping w \<Longrightarrow> reachable_overlapping (snd (onMessage ev sender_tab msg w))"
| overlapping_command:
    "reachable_overlapping w \<Longrightarrow> reachable_overlapping (onCommand ev command w)"
| overlapping_settings: "reachable_overlapping w \<Longrightarrow> reachable_overlapping (w\<lparr>store := sto\<rparr>)"
| overlapping_pause:
    "reachable_overlapping w \<Longrightarrow> reachable_overlapping (pause_overlapped ev ev' sender_tab msg w)"
| overlapping_resume:
    "reachable_overlapping w \<Longrightarrow> reachable_overlapping (resume_overlapped ev ev' sender_tab msg w)"

subsection \<open>The WAV encoder (content.js, lines 835 to 874)\<close>

type_synonym byte = "8 word"

text \<open>
  A JavaScript number that holds a sample. The samples of an \<^verbatim>\<open>AudioBuffer\<close> are
  32-bit floats; the encoder compares them with constants and multiplies them by
  \<^verbatim>\<open>0x8000\<close> or \<^verbatim>\<open>0x7fff\<close> after clamping, and on such values double arithmetic is
  exact (a 24-bit significand times a 15-bit constant). So a finite sample is a
  \<^typ>\<open>real\<close> and the operations are the real ones.
\<close>

datatype number = Num real | Infinity | Neg_Infinity | NaN

text \<open>The comparison \<^verbatim>\<open><\<close>: false as soon as one side is \<^verbatim>\<open>NaN\<close>.\<close>

fun num_less :: "number \<Rightarrow> number \<Rightarrow> bool" where
  "num_less NaN y = False"
| "num_less x NaN = False"
| "num_less (Num a) (Num b) = (a < b)"
| "num_less Neg_Infinity Neg_Infinity = False"
| "num_less Neg_Infinity y = True"
| "num_less x Infinity = (x \<noteq> Infinity)"
| "num_less x y = False"

fun Math_min :: "number \<Rightarrow> number \<Rightarrow> number" where
  "Math_min NaN y = NaN"
| "Math_min x NaN = NaN"
| "Math_min x y = (if num_less y x then y else x)"

fun Math_max :: "number \<Rightarrow> number \<Rightarrow> number" where
  "Math_max NaN y = NaN"
| "Math_max x NaN = NaN"
| "Math_max x y = (if num_less x y then y else x)"

text \<open>The product with a positive finite constant.\<close>

fun num_times :: "number \<Rightarrow> real \<Rightarrow> number" where
  "num_times (Num a) k = Num (a * k)"
| "num_times x k = x"

text \<open>
  \<^verbatim>\<open>ToInt16\<close>, the conversion \<^verbatim>\<open>setInt16\<close> applies: \<^verbatim>\<open>NaN\<close> and the infinities
  give 0, a finite number is truncated towards zero and wraps modulo \<open>2^16\<close>.
\<close>

definition trunc :: "real \<Rightarrow> int" where
  "trunc r = (if r < 0 then \<lceil>r\<rceil> else \<lfloor>r\<rfloor>)"

definition ToInt16 :: "number \<Rightarrow> 16 word" where
  "ToInt16 x = (case x of Num r \<Rightarrow> word_of_int (trunc r) | Infinity \<Rightarrow> 0 | Neg_Infinity \<Rightarrow> 0 | NaN \<Rightarrow> 0)"

text \<open>
  The value the encoder hands to \<^verbatim>\<open>setInt16\<close> for the sample \<open>s\<close>:
  \<^verbatim>\<open>clamped < 0 ? clamped * 0x8000 : clamped * 0x7fff\<close> with
  \<^verbatim>\<open>clamped = Math.max(-1, Math.min(1, s))\<close>.
\<close>

definition clamp_sample :: "number \<Rightarrow> number" where
  "clamp_sample s = Math_max (Num (- 1)) (Math_min (Num 1) s)"

definition sample_value :: "number \<Rightarrow> number" where
  "sample_value s =
     (let clamped = clamp_sample s
      in if num_less clamped (Num 0) then num_times clamped 0x8000 else num_times clamped 0x7fff)"

text \<open>
  An \<^verbatim>\<open>AudioBuffer\<close>: \<^verbatim>\<open>buf_channelData b ch i\<close> is \<^verbatim>\<open>b.getChannelData(ch)[i]\<close>.
  The sample rate is taken to be a whole number of hertz.
\<close>

record audio_buffer =
  buf_numberOfChannels :: nat
  buf_sampleRate :: nat
  buf_length :: nat
  buf_channelData :: "nat \<Rightarrow> nat \<Rightarrow> number"

record blob =
  blob_data :: "byte list"
  blob_type :: string

definition sum_bind :: "error + 'a \<Rightarrow> ('a \<Rightarrow> error + 'b) \<Rightarrow> error + 'b" where
  "sum_bind r f = (case r of Inl e \<Rightarrow> Inl e | Inr x \<Rightarrow> f x)"

text \<open>Little-endian bytes, as \<^verbatim>\<open>DataView\<close> writes them with \<^verbatim>\<open>littleEndian = true\<close>.\<close>

definition le16 :: "16 word \<Rightarrow> byte list" where
  "le16 v = [ucast v, ucast (drop_bit 8 v)]"

definition le32 :: "32 word \<Rightarrow> byte list" where
  "le32 v = [ucast v, ucast (drop_bit 8 v), ucast (drop_bit 16 v), ucast (drop_bit 24 v)]"

text \<open>
  The \<^verbatim>\<open>DataView\<close> over the \<^verbatim>\<open>ArrayBuffer\<close> is the list of its bytes. A setter
  throws a \<^verbatim>\<open>RangeError\<close> when the bytes it writes do not fit, and converts its
  argument to the width it writes (modulo \<open>2^8\<close>, \<open>2^16\<close>, \<open>2^32\<close>).
\<close>

fun write_bytes :: "byte list \<Rightarrow> nat \<Rightarrow> byte list \<Rightarrow> byte list" where
  "write_bytes view offset [] = view"
| "write_bytes view offset (b # bs) = write_bytes (view[offset := b]) (Suc offset) bs"

definition set_bytes :: "byte list \<Rightarrow> nat \<Rightarrow> byte list \<Rightarrow> error + byte list" where
  "set_bytes view offset bs =
     (if offset + length bs \<le> length view then Inr (write_bytes view offset bs)
      else Inl ''Offset is outside the bounds of the DataView'')"

definition setUint8 :: "byte list \<Rightarrow> nat \<Rightarrow> nat \<Rightarrow> error + byte list" where
  "setUint8 view offset v = set_bytes view offset [of_nat v]"

definition setUint16 :: "byte list \<Rightarrow> nat \<Rightarrow> nat \<Rightarrow> error + byte list" where
  "setUint16 view offset v = set_bytes view offset (le16 (of_nat v))"

definition setUint32 :: "byte list \<Rightarrow> nat \<Rightarrow> nat \<Rightarrow> error + byte list" where
  "setUint32 view offset v = set_bytes view offset (le32 (of_nat v))"

definition setInt16 :: "byte list \<Rightarrow> nat \<Rightarrow> number \<Rightarrow> error + byte list" where
  "setInt16 view offset v = set_bytes view offset (le16 (ToInt16 v))"

text \<open>\<^verbatim>\<open>writeString\<close>: one \<^verbatim>\<open>setUint8\<close> per code unit, at rising offsets.\<close>

fun writeString :: "byte list \<Rightarrow> nat \<Rightarrow> string \<Rightarrow> error + byte list" where
  "writeString view offset [] = Inr view"
| "writeString view offset (c # cs) =
     (case setUint8 view offset (of_char c) of
        Inl e \<Rightarrow> Inl e
      | Inr view' \<Rightarrow> writeString view' (Suc offset) cs)"

text \<open>The inner loop over the channels of frame \<open>i\<close>, from channel \<open>ch\<close> on.\<close>

function write_channels ::
  "audio_buffer \<Rightarrow> nat \<Rightarrow> nat \<Rightarrow> nat \<Rightarrow> byte list \<Rightarrow> nat \<Rightarrow> error + byte list \<times> nat" where
  "write_channels buffer numberOfChannels i ch view offset =
     (if ch < numberOfChannels
      then case setInt16 view offset (sample_value (buf_channelData buffer ch i)) of
             Inl e \<Rightarrow> Inl e
           | Inr view' \<Rightarrow> write_channels buffer numberOfChannels i (Suc ch) view' (offset + 2)
      else Inr (view, offset))"
  by pat_completeness auto
termination
  by (relation "measure (\<lambda>(buffer, numberOfChannels, i, ch, view, offset). numberOfChannels - ch)")
     auto

text \<open>The outer loop over the frames, from frame \<open>i\<close> on.\<close>

function write_frames ::
  "audio_buffer \<Rightarrow> nat \<Rightarrow> nat \<Rightarrow> nat \<Rightarrow> byte list \<Rightarrow> nat \<Rightarrow> error + byte list \<times> nat" where
  "write_frames buffer numberOfChannels samples i view offset =
     (if i < samples
      then case write_channels buffer numberOfChannels i 0 view offset of
             Inl e \<Rightarrow> Inl e
           | Inr (view', offset') \<Rightarrow>
               write_frames buffer numberOfChannels samples (Suc i) view' offset'
      else Inr (view, offset))"
  by pat_completeness auto
termination
  by (relation "measure (\<lambda>(buffer, numberOfChannels, samples, i, view, offset). samples - i)")
     auto

definition audioBufferToWavBlob :: "audio_buffer \<Rightarrow> error + blob" where
  "audioBufferToWavBlob buffer =
     (let numberOfChannels = min 2 (buf_numberOfChannels buffer);
          sampleRate = buf_sampleRate buffer;
          samples = buf_length buffer;
          bytesPerSample = 2;
          blockAlign = numberOfChannels * bytesPerSample;
          dataSize = samples * blockAlign;
          view = replicate (44 + dataSize) 0
      in
      sum_bind (writeString view 0 ''RIFF'') (\<lambda>view.
      sum_bind (setUint32 view 4 (36 + dataSize)) (\<lambda>view.
      sum_bind (writeString view 8 ''WAVE'') (\<lambda>view.
      sum_bind (writeString view 12 ''fmt '') (\<lambda>view.
      sum_bind (setUint32 view 16 16) (\<lambda>view.
      sum_bind (setUint16 view 20 1) (\<lambda>view.
      sum_bind (setUint16 view 22 numberOfChannels) (\<lambda>view.
      sum_bind (setUint32 view 24 sampleRate) (\<lambda>view.
      sum_bind (setUint32 view 28 (sampleRate * blockAlign)) (\<lambda>view.
      sum_bind (setUint16 view 32 blockAlign) (\<lambda>view.
      sum_bind (setUint16 view 34 16) (\<lambda>view.
      sum_bind (writeString view 36 ''data'') (\<lambda>view.
      sum_bind (setUint32 view 40 dataSize) (\<lambda>view.
      sum_bind (write_frames buffer numberOfChannels samples 0 view 44) (\<lambda>(view, offset).
        Inr \<lparr>blob_data = view, blob_type = ''audio/wav''\<rparr>)))))))))))))))"

text \<open>
  What the claims say the encoder produces: the 44 bytes of the header, and the samples,
  frame after frame, the channels of a frame side by side. \<^term>\<open>le_value\<close> reads
  little-endian bytes back as a number.
\<close>

definition ascii :: "string \<Rightarrow> byte list" where
  "ascii s = map (\<lambda>c. of_nat (of_char c)) s"

definition wav_header :: "nat \<Rightarrow> nat \<Rightarrow> nat \<Rightarrow> byte list" where
  "wav_header numberOfChannels sampleRate dataSize =
     ascii ''RIFF'' @ le32 (of_nat (36 + dataSize)) @ ascii ''WAVE''
     @ ascii ''fmt '' @ le32 16 @ le16 1 @ le16 (of_nat numberOfChannels)
     @ le32 (of_nat sampleRate) @ le32 (of_nat (sampleRate * (numberOfChannels * 2)))
     @ le16 (of_nat (numberOfChannels * 2)) @ le16 16
     @ ascii ''data'' @ le32 (of_nat dataSize)"

definition wav_frame :: "audio_buffer \<Rightarrow> nat \<Rightarrow> nat \<Rightarrow> byte list" where
  "wav_frame buffer numberOfChannels i =
     concat (map (\<lambda>ch. le16 (ToInt16 (sample_value (buf_channelData buffer ch i))))
                 [0..<numberOfChannels])"

definition wav_data :: "audio_buffer \<Rightarrow> nat \<Rightarrow> byte list" where
  "wav_data buffer numberOfChannels =
     concat (map (wav_frame buffer numberOfChannels) [0..<buf_length buffer])"

fun le_value :: "byte list \<Rightarrow> nat" where
  "le_value [] = 0"
| "le_value (b # bs) = unat b + 256 * le_value bs"

text \<open>A view while it is written: the bytes written so far, then the zeros not yet written.\<close>

definition padded :: "byte list \<Rightarrow> nat \<Rightarrow> byte list" where
  "padded written n = written @ replicate n 0"

subsection \<open>The capture worker (content.js, lines 677 to 833 and 897 to 915)\<close>

text \<open>
  A media stream and an audio context are handles. The recorder is known by its MIME
  type. Every call that acquires or releases a resource is recorded in
  \<^verbatim>\<open>worker_calls\<close>.
\<close>

record finalized =
  fin_format :: string
  fin_blobDataUrl :: string

datatype worker_call =
    StopTracks nat
  | CloseAudioContext nat
  | GetUserMedia_tab string
  | GetUserMedia_mic
  | NewAudioContext nat
  | ResumeAudioContext nat
  | ConnectToDestination nat
  | ConnectToSpeakers nat
  | PlayBeep
  | NewMediaRecorder nat string
  | RecorderStart nat
  | RecorderPause
  | RecorderResume
  | RecorderStop
  | SendMessage_RECORDING_FINALIZED finalized

record worker =
  mediaRecorder :: "string option"
  mixedStream :: "nat option"
  tabStream :: "nat option"
  micStream :: "nat option"
  chunks :: "blob list"
  activeFormat :: string
  audioContext :: "nat option"
  audioDestination :: "nat option"
  worker_calls :: "worker_call list"

definition initial_worker :: worker where
  "initial_worker =
     \<lparr>mediaRecorder = None, mixedStream = None, tabStream = None, micStream = None,
      chunks = [], activeFormat = ''webm'', audioContext = None, audioDestination = None,
      worker_calls = []\<rparr>"

record worker_env =
  getUserMedia_tab_res :: "error + nat"
  getUserMedia_mic_res :: "error + nat"
  new_AudioContext :: nat
  context_suspended :: bool
  context_resume_res :: "error + unit"
  context_close_res :: "error + unit"
  destination_stream :: nat
  destination_audio_tracks :: nat
  opus_supported :: bool
  recorder_inactive :: bool
  recorder_pause_res :: "error + unit"
  recorder_resume_res :: "error + unit"
  decodeAudioData_res :: "blob \<Rightarrow> error + audio_buffer"
  decode_context_close_res :: "error + unit"
  blobToDataUrl_res :: "blob \<Rightarrow> error + string"
  finalized_sendMessage_res :: "error + unit"

definition get_worker :: "(worker, worker) io" where
  "get_worker k = (Inr k, k)"

definition modify_worker :: "(worker \<Rightarrow> worker) \<Rightarrow> (worker, unit) io" where
  "modify_worker f k = (Inr (), f k)"

definition worker_api :: "worker_call \<Rightarrow> error + 'a \<Rightarrow> (worker, 'a) io" where
  "worker_api c outcome k = (outcome, k\<lparr>worker_calls := worker_calls k @ [c]\<rparr>)"

definition stop_tracks :: "nat option \<Rightarrow> (worker, unit) io" where
  "stop_tracks stream =
     (case stream of None \<Rightarrow> io_return () | Some s \<Rightarrow> worker_api (StopTracks s) (Inr ()))"

definition cleanup :: "worker_env \<Rightarrow> (worker, unit) io" where
  "cleanup wev =
     io_bind get_worker (\<lambda>k.
     io_bind (stop_tracks (tabStream k)) (\<lambda>u.
     io_bind (stop_tracks (micStream k)) (\<lambda>u.
     io_bind (stop_tracks (mixedStream k)) (\<lambda>u.
     io_bind (case audioContext k of
                None \<Rightarrow> io_return ()
              | Some c \<Rightarrow> try_catch (worker_api (CloseAudioContext c) (context_close_res wev))
                           (\<lambda>e. io_return ())) (\<lambda>u.
     modify_worker (\<lambda>k. k\<lparr>tabStream := None, micStream := None, mixedStream := None,
        audioContext := None, audioDestination := None, mediaRecorder := None,
        chunks := []\<rparr>))))))"

definition startCapture :: "worker_env \<Rightarrow> payload \<Rightarrow> (worker, unit) io" where
  "startCapture wev payload =
     io_bind (cleanup wev) (\<lambda>u.
     io_bind (modify_worker (\<lambda>k. k\<lparr>activeFormat := or_default (p_format payload) ''webm''\<rparr>)) (\<lambda>u.
     let sourceMode = or_default (Some (p_sourceMode payload)) ''both'';
         includeSystem = (sourceMode = ''both'' \<or> sourceMode = ''system'');
         includeMic = (sourceMode = ''both'' \<or> sourceMode = ''mic'')
     in
     io_bind
       (if includeSystem
        then (if or_default (p_streamId payload) [] = []
              then io_throw ''System audio capture is unavailable for this tab.''
              else io_bind (worker_api (GetUserMedia_tab (or_default (p_streamId payload) []))
                              (getUserMedia_tab_res wev)) (\<lambda>stream.
                     modify_worker (\<lambda>k. k\<lparr>tabStream := Some stream\<rparr>)))
        else io_return ()) (\<lambda>u.
     io_bind
       (if includeMic
        then try_catch
               (io_bind (worker_api GetUserMedia_mic (getUserMedia_mic_res wev)) (\<lambda>stream.
                  modify_worker (\<lambda>k. k\<lparr>micStream := Some stream\<rparr>)))
               (\<lambda>e.
                  io_bind (modify_worker (\<lambda>k. k\<lparr>micStream := None\<rparr>)) (\<lambda>u.
                    if \<not> includeSystem
                    then io_throw ''Microphone permission is required for mic-only recording.''
                    else io_return ()))
        else io_return ()) (\<lambda>u.
     io_bind (worker_api (NewAudioContext (new_AudioContext wev)) (Inr ())) (\<lambda>u.
     io_bind (modify_worker (\<lambda>k. k\<lparr>audioContext := Some (new_AudioContext wev)\<rparr>)) (\<lambda>u.
     io_bind
       (if context_suspended wev
        then try_catch (worker_api (ResumeAudioContext (new_AudioContext wev))
                          (context_resume_res wev))
               (\<lambda>e. io_return ())
        else io_return ()) (\<lambda>u.
     io_bind (modify_worker (\<lambda>k. k\<lparr>audioDestination := Some (destination_stream wev)\<rparr>)) (\<lambda>u.
     io_bind get_worker (\<lambda>k.
     io_bind
       (case (if includeSystem then tabStream k else None) of
          None \<Rightarrow> io_return ()
        | Some stream \<Rightarrow>
            io_bind (worker_api (ConnectToDestination stream) (Inr ())) (\<lambda>u.
              worker_api (ConnectToSpeakers stream) (Inr ()))) (\<lambda>u.
     io_bind
       (case (if includeMic then micStream k else None) of
          None \<Rightarrow> io_return ()
        | Some stream \<Rightarrow> worker_api (ConnectToDestination stream) (Inr ())) (\<lambda>u.
     io_bind (modify_worker (\<lambda>k. k\<lparr>mixedStream := Some (destination_stream wev)\<rparr>)) (\<lambda>u.
     if destination_audio_tracks wev = 0
     then io_throw ''No audio source available for recording.''
     else
     io_bind (modify_worker (\<lambda>k. k\<lparr>chunks := []\<rparr>)) (\<lambda>u.
     io_bind (if p_beepOnStart payload = Some True
              then worker_api PlayBeep (Inr ()) else io_return ()) (\<lambda>u.
     let mimeType = (if opus_supported wev then ''audio/webm;codecs=opus'' else ''audio/webm'') in
     io_bind (worker_api (NewMediaRecorder (destination_stream wev) mimeType) (Inr ())) (\<lambda>u.
     io_bind (modify_worker (\<lambda>k. k\<lparr>mediaRecorder := Some mimeType\<rparr>)) (\<lambda>u.
       worker_api (RecorderStart 1000) (Inr ())))))))))))))))))"

definition stopCapture :: "worker_env \<Rightarrow> (worker, unit) io" where
  "stopCapture wev =
     io_bind get_worker (\<lambda>k.
       if mediaRecorder k = None \<or> recorder_inactive wev then cleanup wev
       else worker_api RecorderStop (Inr ()))"

definition handle :: "worker_env \<Rightarrow> offscreen_message \<Rightarrow> (worker, unit) io" where
  "handle wev msg =
     (case msg of
        OFFSCREEN_START payload \<Rightarrow> startCapture wev payload
      | OFFSCREEN_PAUSE \<Rightarrow>
          io_bind get_worker (\<lambda>k.
            if mediaRecorder k = None then io_return ()
            else worker_api RecorderPause (recorder_pause_res wev))
      | OFFSCREEN_RESUME \<Rightarrow>
          io_bind get_worker (\<lambda>k.
            if mediaRecorder k = None then io_return ()
            else worker_api RecorderResume (recorder_resume_res wev))
      | OFFSCREEN_STOP \<Rightarrow> stopCapture wev)"

text \<open>
  The worker's listener: whatever \<^verbatim>\<open>handle\<close> throws is caught and answered as
  \<^verbatim>\<open>{ ok: false, error }\<close>, so the sender's promise resolves.
\<close>

definition offscreen_onMessage :: "worker_env \<Rightarrow> offscreen_message \<Rightarrow> worker \<Rightarrow> reply \<times> worker" where
  "offscreen_onMessage wev msg k =
     (case handle wev msg k of
        (Inr u, k') \<Rightarrow> (Reply_ok, k')
      | (Inl e, k') \<Rightarrow> (Reply_error e, k'))"

definition convertWebmToWav :: "worker_env \<Rightarrow> blob \<Rightarrow> error + blob" where
  "convertWebmToWav wev webmBlob =
     sum_bind (decodeAudioData_res wev webmBlob) (\<lambda>buffer.
     sum_bind (decode_context_close_res wev) (\<lambda>u.
       audioBufferToWavBlob buffer))"

definition finalize :: "worker_env \<Rightarrow> blob \<Rightarrow> string \<Rightarrow> error + finalized" where
  "finalize wev blob format =
     (if format = ''wav''
      then case sum_bind (convertWebmToWav wev blob) (\<lambda>wavBlob.
                sum_bind (blobToDataUrl_res wev wavBlob) (\<lambda>url.
                  Inr \<lparr>fin_format = ''wav'', fin_blobDataUrl = url\<rparr>)) of
             Inr r \<Rightarrow> Inr r
           | Inl e \<Rightarrow> sum_bind (blobToDataUrl_res wev blob) (\<lambda>url.
                        Inr \<lparr>fin_format = ''webm'', fin_blobDataUrl = url\<rparr>)
      else if format = ''mp3''
      then sum_bind (blobToDataUrl_res wev blob) (\<lambda>url.
             Inr \<lparr>fin_format = ''webm'', fin_blobDataUrl = url\<rparr>)
      else sum_bind (blobToDataUrl_res wev blob) (\<lambda>url.
             Inr \<lparr>fin_format = ''webm'', fin_blobDataUrl = url\<rparr>))"

text \<open>The recorder's events \<^verbatim>\<open>ondataavailable\<close> and \<^verbatim>\<open>onstop\<close>.\<close>

definition ondataavailable :: "blob \<Rightarrow> (worker, unit) io" where
  "ondataavailable data =
     (if blob_data data \<noteq> [] then modify_worker (\<lambda>k. k\<lparr>chunks := chunks k @ [data]\<rparr>)
      else io_return ())"

definition onstop :: "worker_env \<Rightarrow> (worker, unit) io" where
  "onstop wev =
     try_finally
       (io_bind get_worker (\<lambda>k.
          let blob = \<lparr>blob_data = concat (map blob_data (chunks k)),
                      blob_type = or_default (mediaRecorder k) ''audio/webm''\<rparr>
          in case finalize wev blob (activeFormat k) of
               Inl e \<Rightarrow> io_throw e
             | Inr fin \<Rightarrow> worker_api (SendMessage_RECORDING_FINALIZED fin)
                            (finalized_sendMessage_res wev)))
       (cleanup wev)"

text \<open>The message the coordinator receives from \<^verbatim>\<open>onstop\<close>.\<close>

definition finalized_message :: "finalized \<Rightarrow> message" where
  "finalized_message fin = RECORDING_FINALIZED (Some (fin_format fin)) (fin_blobDataUrl fin)"

text \<open>
  The coordinator's \<^verbatim>\<open>sendMessage\<close> answered by the worker's listener: the promise
  resolves to the listener's answer.
\<close>

definition answered_by :: "worker_env \<Rightarrow> worker \<Rightarrow> offscreen_message \<Rightarrow> error + reply" where
  "answered_by wev k msg = Inr (fst (offscreen_onMessage wev msg k))"

subsection \<open>The observer (content.js, lines 229 to 269)\<close>

text \<open>
  What \<^verbatim>\<open>pollCallState\<close> reads from the page: the text of the first element each
  selector finds (\<^term>\<open>None\<close> when it finds none), the document title, the address, and
  whether each of the four in-call controls is present.
\<close>

record page =
  meeting_title_text :: "string option"
  h1_text :: "string option"
  title_text :: "string option"
  document_title :: string
  participants_count_text :: "string option"
  participants_label_text :: "string option"
  location_href :: string
  call_end_button :: bool
  leave_button :: bool
  hang_up_button :: bool
  toggle_video_button :: bool

record observer_state =
  obs_callActive :: bool
  obs_meetingTitle :: string
  obs_participantCount :: "nat option"
  obs_recordingState :: recording_state
  obs_panelEnabled :: bool

datatype observer_call = RenderPanel | RuntimeSendMessage_to_coordinator message

definition initial_observer_state :: observer_state where
  "initial_observer_state =
     \<lparr>obs_callActive = False, obs_meetingTitle = [], obs_participantCount = None,
      obs_recordingState = Idle, obs_panelEnabled = True\<rparr>"

definition trim :: "string \<Rightarrow> string" where
  "trim s = rev (dropWhile is_space (rev (dropWhile is_space s)))"

definition toLowerCase :: "string \<Rightarrow> string" where
  "toLowerCase s =
     map (\<lambda>c. if 65 \<le> (of_char c :: nat) \<and> (of_char c :: nat) \<le> 90
             then char_of ((of_char c :: nat) + 32) else c) s"

text \<open>\<^verbatim>\<open>s.includes(pat)\<close>.\<close>

fun includes_str :: "string \<Rightarrow> string \<Rightarrow> bool" where
  "includes_str [] pat = (pat = [])"
| "includes_str (c # cs) pat = (take (length pat) (c # cs) = pat \<or> includes_str cs pat)"

definition is_digit :: "char \<Rightarrow> bool" where
  "is_digit c = (48 \<le> (of_char c :: nat) \<and> (of_char c :: nat) \<le> 57)"

text \<open>\<^verbatim>\<open>Number\<close> of a run of decimal digits.\<close>

definition number_of_digits :: "string \<Rightarrow> nat" where
  "number_of_digits ds = foldl (\<lambda>n c. 10 * n + ((of_char c :: nat) - 48)) 0 ds"

text \<open>\<^verbatim>\<open>text.match(/(\d+)/)\<close>: the first run of digits, none when there is no digit.\<close>

definition parseParticipantCount :: "string \<Rightarrow> nat option" where
  "parseParticipantCount text =
     (let m = takeWhile is_digit (dropWhile (\<lambda>c. \<not> is_digit c) text)
      in if m = [] then None else Some (number_of_digits m))"

definition detectCallActive :: "page \<Rightarrow> bool" where
  "detectCallActive pg =
     (let url = toLowerCase (location_href pg)
      in if includes_str url ''/meetup-join/'' \<or> includes_str url ''/meeting/'' then True
         else call_end_button pg \<or> leave_button pg \<or> hang_up_button pg
              \<or> toggle_video_button pg)"

definition first_element :: "string option list \<Rightarrow> string option" where
  "first_element els = (case filter (\<lambda>el. el \<noteq> None) els of [] \<Rightarrow> None | el # rest \<Rightarrow> el)"

definition page_meetingTitle :: "page \<Rightarrow> string" where
  "page_meetingTitle pg =
     (let titleEl = first_element [meeting_title_text pg, h1_text pg, title_text pg]
      in trim (or_default (Some (or_default titleEl (document_title pg))) ''TeamsCall''))"

definition page_participantCount :: "page \<Rightarrow> nat option" where
  "page_participantCount pg =
     (let partEl = first_element [participants_count_text pg, participants_label_text pg]
      in parseParticipantCount (or_default partEl []))"

definition pollCallState :: "page \<Rightarrow> observer_state \<Rightarrow> observer_state \<times> observer_call list" where
  "pollCallState pg st =
     (let meetingTitle = page_meetingTitle pg;
          participantCount = page_participantCount pg;
          callActive = detectCallActive pg;
          changed = (callActive \<noteq> obs_callActive st \<or> meetingTitle \<noteq> obs_meetingTitle st
                     \<or> participantCount \<noteq> obs_participantCount st)
      in if \<not> changed then (st, [])
         else (st\<lparr>obs_callActive := callActive, obs_meetingTitle := meetingTitle,
                  obs_participantCount := participantCount\<rparr>,
               [RenderPanel,
                RuntimeSendMessage_to_coordinator
                  (CALL_STATUS_UPDATE callActive meetingTitle participantCount)]))"

subsection \<open>A sample run\<close>

text \<open>
  An environment in which every call succeeds, the settings the extension installs, and
  the worlds before and after consent is given and a recording is started from tab 7.
\<close>

definition publish_ok :: publish_env where
  "publish_ok =
     \<lparr>setBadgeText_res = Inr (), setBadgeBackgroundColor_res = Inr (),
      set_runtimeState_res = Inr (), tabs_sendMessage_res = Inr ()\<rparr>"

definition env_ok :: env where
  "env_ok =
     \<lparr>new_Date = \<lparr>getFullYear = 2024, getMonth = 0, getDate = 15, getHours = 9, getMinutes = 5\<rparr>,
      Date_now = 1705309500000,
      randomUUID = ''6f1c2a9e-0000-4000-8000-000000000001'',
      tabs_query_res = Inr [Some 7],
      getMediaStreamId_res = Inr ''stream-1'',
      getContexts_defined = True,
      getContexts_res = Inr 0,
      hasDocument_res = Inr False,
      createDocument_res = Inr (),
      storage_get_res = Inr (),
      storage_get_recordings_res = Inr (),
      storage_set_res = Inr (),
      sendMessage_res = (\<lambda>msg. Inr Reply_ok),
      download_artifact_res = Inr 11,
      download_sidecar_res = Inr 12,
      removeFile_res = Inr (),
      erase_res = Inr (),
      publish1 = publish_ok,
      publish2 = publish_ok,
      publish_catch = publish_ok\<rparr>"

definition DEFAULT_SETTINGS :: storage where
  "DEFAULT_SETTINGS =
     \<lparr>stored_sourceMode = Some ''both'', stored_format = Some ''webm'',
      stored_folder = Some ''TeamsRecordings'', stored_beepOnStart = Some True,
      stored_consentAccepted = Some False, stored_onScreenBadge = Some True,
      stored_notes = Some [], stored_recordings = None, stored_runtimeState = None\<rparr>"

definition installed_world :: world where
  "installed_world = \<lparr>cstate = initial_state, store = DEFAULT_SETTINGS, calls = []\<rparr>"

definition consented_world :: world where
  "consented_world =
     installed_world\<lparr>store := DEFAULT_SETTINGS\<lparr>stored_consentAccepted := Some True\<rparr>\<rparr>"

definition recording_world :: world where
  "recording_world = snd (onMessage env_ok (Some 7) (START_RECORDING None) consented_world)"



text \<open>
  A worker whose microphone is refused, and the coordinator started in mic-only mode
  with that worker answering its messages.
\<close>

definition mic_denied :: worker_env where
  "mic_denied =
     \<lparr>getUserMedia_tab_res = Inr 1,
      getUserMedia_mic_res = Inl ''Permission denied'',
      new_AudioContext = 2,
      context_suspended = False,
      context_resume_res = Inr (),
      context_close_res = Inr (),
      destination_stream = 3,
      destination_audio_tracks = 1,
      opus_supported = True,
      recorder_inactive = False,
      recorder_pause_res = Inr (),
      recorder_resume_res = Inr (),
      decodeAudioData_res = (\<lambda>b. Inl ''Unable to decode audio data''),
      decode_context_close_res = Inr (),
      blobToDataUrl_res = (\<lambda>b. Inr ''data:audio/webm;base64,''),
      finalized_sendMessage_res = Inr ()\<rparr>"

definition mic_only_world :: world where
  "mic_only_world =
     consented_world\<lparr>store := (store consented_world)\<lparr>stored_sourceMode := Some ''mic''\<rparr>\<rparr>"

definition env_mic_denied :: env where
  "env_mic_denied = env_ok\<lparr>sendMessage_res := answered_by mic_denied initial_worker\<rparr>"

text \<open>The same start when no listener answers, so that the promise is rejected.\<close>

definition env_no_listener :: env where
  "env_no_listener =
     env_ok\<lparr>sendMessage_res :=
       (\<lambda>msg. Inl ''Could not establish connection. Receiving end does not exist.'')\<rparr>"

definition mic_only_start :: offscreen_message where
  "mic_only_start =
     OFFSCREEN_START
       \<lparr>p_streamId = None, p_sourceMode = ''mic'', p_format = Some ''webm'',
        p_beepOnStart = Some True, p_startedAt = Some 1705309500000,
        p_meetingTitle = ''TeamsCall'', p_participantCount = None\<rparr>"

text \<open>
  A worker whose decoder fails, a recorded blob, and a state whose file name was chosen
  for the requested format \<^verbatim>\<open>wav\<close>.
\<close>

definition decode_fails :: worker_env where
  "decode_fails = mic_denied\<lparr>getUserMedia_mic_res := Inr 4\<rparr>"

definition sample_blob :: blob where
  "sample_blob = \<lparr>blob_data = [0x1A, 0x45, 0xDF, 0xA3], blob_type = ''audio/webm;codecs=opus''\<rparr>"

definition wav_requested_state :: state where
  "wav_requested_state =
     initial_state\<lparr>recordingState := Recording, recordingStartedAt := Some 1705309500000,
       currentFilename := ''TeamsRecordings/Teams_2024-01-15_09-05_TeamsCall.wav''\<rparr>"

text \<open>Two stereo frames at 48 kHz: half scale and an overdriven sample, then \<open>-1\<close> and a \<^verbatim>\<open>NaN\<close>.\<close>

definition stereo_buffer :: audio_buffer where
  "stereo_buffer =
     \<lparr>buf_numberOfChannels = 2, buf_sampleRate = 48000, buf_length = 2,
      buf_channelData = (\<lambda>ch i. if ch = 0 then (if i = 0 then Num (1 / 2) else Num (- 1))
                                 else (if i = 0 then Num 2 else NaN))\<rparr>"

text \<open>A meeting page, and the observer's state once it has seen it.\<close>

definition meeting_page :: page where
  "meeting_page =
     \<lparr>meeting_title_text = Some '' Weekly sync '', h1_text = None, title_text = Some ''Teams'',
      document_title = ''Teams'', participants_count_text = Some ''12 participants'',
      participants_label_text = None,
      location_href = ''https://teams.microsoft.com/l/Meetup-Join/19:abc'',
      call_end_button = False, leave_button = True, hang_up_button = False,
      toggle_video_button = False\<rparr>"

definition observed_meeting :: observer_state where
  "observed_meeting =
     \<lparr>obs_callActive = True, obs_meetingTitle = ''Weekly sync'',
      obs_participantCount = Some 12, obs_recordingState = Idle, obs_panelEnabled = True\<rparr>"

subsection \<open>Assertions about the state object\<close>

text \<open>The invariant of the data model.\<close>

definition state_inv :: "state \<Rightarrow> bool" where
  "state_inv s =
     (recordingState s \<noteq> Idle \<longrightarrow> recordingStartedAt s \<noteq> None \<and> currentFilename s \<noteq> [])"


text \<open>
  \<^term>\<open>keeps_state\<close>: a computation that does not write the state object.
  \<^term>\<open>state_triple\<close>: started in a state that satisfies \<open>P\<close>, the computation ends,
  by return or by throw, in a state that satisfies \<open>Q\<close>.
\<close>

definition keeps_state :: "(world, 'a) io \<Rightarrow> bool" where
  "keeps_state m = (\<forall>w. cstate (snd (m w)) = cstate w)"

definition state_triple :: "(state \<Rightarrow> bool) \<Rightarrow> (world, 'a) io \<Rightarrow> (state \<Rightarrow> bool) \<Rightarrow> bool" where
  "state_triple P m Q = (\<forall>w. P (cstate w) \<longrightarrow> Q (cstate (snd (m w))))"

section \<open>Properties\<close>

subsection \<open>Sequencing\<close>

lemmas io_defs = io_return_def io_throw_def io_bind_def try_catch_def try_finally_def
  get_state_def storage_get_def modify_state_def api_def storage_set_def

lemma io_bind_get_state: "io_bind get_state f w = f (cstate w) w"
  by (simp add: io_bind_def get_state_def)

lemma io_bind_storage_get:
  "io_bind (storage_get outcome) f w =
     (case outcome of
        Inl e \<Rightarrow> (Inl e, w\<lparr>calls := calls w @ [StorageGet]\<rparr>)
      | Inr u \<Rightarrow> f (store w) (w\<lparr>calls := calls w @ [StorageGet]\<rparr>))"
  by (simp add: io_bind_def storage_get_def split: sum.splits)

lemma io_bind_storage_get_ok:
  "io_bind (storage_get (Inr ())) f w = f (store w) (w\<lparr>calls := calls w @ [StorageGet]\<rparr>)"
  by (simp add: io_bind_storage_get)

lemma io_bind_modify_state: "io_bind (modify_state g) f w = f () (w\<lparr>cstate := g (cstate w)\<rparr>)"
  by (simp add: io_bind_def modify_state_def)

lemma try_finally_snd: "snd (try_finally m fin w) = snd (fin (snd (m w)))"
  by (simp add: try_finally_def split: prod.splits sum.splits)

subsection \<open>publishState\<close>

lemma publishState_cstate: "cstate (snd (publishState pe w)) = cstate w"
  by (simp add: publishState_def io_defs split: sum.splits option.splits)

lemma publishState_cstateD: "publishState pe w = (r, w') \<Longrightarrow> cstate w' = cstate w"
  using publishState_cstate [of pe w] by simp

lemma publishState_calls:
  "\<exists>cs. calls (snd (publishState pe w)) = calls w @ SetBadgeText (badge_label (cstate w)) # cs"
  by (simp add: publishState_def io_defs split: sum.splits option.splits)



lemma publishState_recordings:
  "stored_recordings (store (snd (publishState pe w))) = stored_recordings (store w)"
  by (simp add: publishState_def io_defs split: sum.splits option.splits)

lemma try_finally_reset:
  "snd (try_finally m (io_bind (modify_state g) (\<lambda>u. publishState pe)) w) =
   snd (publishState pe ((snd (m w))\<lparr>cstate := g (cstate (snd (m w)))\<rparr>))"
  by (simp add: try_finally_snd io_bind_def modify_state_def)

subsection \<open>Computations that keep the state, and triples\<close>

lemma keeps_return: "keeps_state (io_return x)"
  by (simp add: keeps_state_def io_return_def)

lemma keeps_throw: "keeps_state (io_throw e)"
  by (simp add: keeps_state_def io_throw_def)

lemma keeps_api: "keeps_state (api c r)"
  by (simp add: keeps_state_def api_def)

lemma keeps_storage_set: "keeps_state (storage_set c r f)"
  by (simp add: keeps_state_def storage_set_def split: sum.splits)

lemma keeps_storage_get: "keeps_state (storage_get r)"
  by (simp add: keeps_state_def storage_get_def split: sum.splits)

lemma keeps_publishState: "keeps_state (publishState pe)"
  by (simp add: keeps_state_def publishState_cstate)

lemma keeps_bind: "keeps_state m \<Longrightarrow> (\<And>x. keeps_state (f x)) \<Longrightarrow> keeps_state (io_bind m f)"
  unfolding keeps_state_def io_bind_def
  by (auto split: prod.splits sum.splits) (metis snd_conv)+

lemma keeps_resolveTeamsTabId: "keeps_state (resolveTeamsTabId ev)"
  unfolding keeps_state_def
  by (auto simp: resolveTeamsTabId_def io_defs split: sum.splits option.splits list.splits)

lemma keeps_ensureOffscreenDocument: "keeps_state (ensureOffscreenDocument ev)"
  unfolding keeps_state_def
  by (auto simp: ensureOffscreenDocument_def io_defs split: sum.splits option.splits if_splits)

lemma triple_keeps: "keeps_state m \<Longrightarrow> (\<And>s. P s \<Longrightarrow> Q s) \<Longrightarrow> state_triple P m Q"
  by (simp add: keeps_state_def state_triple_def)

lemma triple_bind:
  assumes "keeps_state m" "\<And>s. P s \<Longrightarrow> Q s" "\<And>x. state_triple P (f x) Q"
  shows "state_triple P (io_bind m f) Q"
  unfolding state_triple_def
proof (intro allI impI)
  fix w :: world assume P: "P (cstate w)"
  obtain r w' where mw: "m w = (r, w')" by (cases "m w")
  with assms(1) have c: "cstate w' = cstate w"
    by (metis keeps_state_def snd_conv)
  show "Q (cstate (snd (io_bind m f w)))"
  proof (cases r)
    case (Inl e)
    with mw c P assms(2) show ?thesis by (simp add: io_bind_def)
  next
    case (Inr x)
    with mw c P assms(3) [of x] show ?thesis by (simp add: io_bind_def state_triple_def)
  qed
qed

lemma triple_get_state:
  "(\<And>s. state_triple (\<lambda>s'. s' = s \<and> P s) (f s) Q) \<Longrightarrow> state_triple P (io_bind get_state f) Q"
  by (simp add: state_triple_def io_bind_get_state)

lemma triple_modify:
  assumes "state_triple (\<lambda>s'. \<exists>s. P s \<and> s' = g s) (f ()) Q"
  shows "state_triple P (io_bind (modify_state g) f) Q"
  unfolding state_triple_def
proof (intro allI impI)
  fix w :: world assume "P (cstate w)"
  then have "\<exists>s. P s \<and> cstate (w\<lparr>cstate := g (cstate w)\<rparr>) = g s" by auto
  with assms have "Q (cstate (snd (f () (w\<lparr>cstate := g (cstate w)\<rparr>))))"
    unfolding state_triple_def by blast
  then show "Q (cstate (snd (io_bind (modify_state g) f w)))"
    by (simp add: io_bind_modify_state)
qed

lemma triple_if:
  "(c \<Longrightarrow> state_triple P a Q) \<Longrightarrow> (\<not> c \<Longrightarrow> state_triple P b Q) \<Longrightarrow>
   state_triple P (if c then a else b) Q"
  by simp

lemma triple_try_catch:
  assumes "keeps_state m" "\<And>s. P s \<Longrightarrow> Q s" "\<And>e. state_triple P (h e) Q"
  shows "state_triple P (try_catch m h) Q"
  unfolding state_triple_def
proof (intro allI impI)
  fix w :: world assume P: "P (cstate w)"
  obtain r w' where mw: "m w = (r, w')" by (cases "m w")
  with assms(1) have c: "cstate w' = cstate w"
    by (metis keeps_state_def snd_conv)
  show "Q (cstate (snd (try_catch m h w)))"
  proof (cases r)
    case (Inl e)
    with mw c P assms(3) [of e] show ?thesis by (simp add: try_catch_def state_triple_def)
  next
    case (Inr x)
    with mw c P assms(2) show ?thesis by (simp add: try_catch_def)
  qed
qed

subsection \<open>The handlers keep the invariant\<close>

lemma makeFilename_nonempty: "makeFilename d t f fo \<noteq> []"
  by (simp add: makeFilename_def Let_def)

lemma handleFinalized_read_fails:
  "storage_get_res ev = Inl e \<Longrightarrow>
     handleFinalized ev format url w = (Inl e, w\<lparr>calls := calls w @ [StorageGet]\<rparr>)"
  by (simp add: handleFinalized_def io_bind_storage_get)

lemma handleFinalized_read_ok:
  assumes "storage_get_res ev = Inr ()"
  shows "\<exists>w1. snd (handleFinalized ev format url w) =
            snd (publishState (publish1 ev) (w1\<lparr>cstate := reset_recording (cstate w1)\<rparr>))
          \<and> (\<exists>pre. calls w1 = calls w @ pre)"
  unfolding handleFinalized_def assms io_bind_storage_get_ok io_bind_get_state Let_def
    try_finally_reset
  apply (rule exI, rule conjI, rule refl)
  apply (simp add: io_defs split: sum.splits)
  done

lemma handleFinalized_cstate:
  assumes "storage_get_res ev = Inr ()"
  shows "\<exists>s. cstate (snd (handleFinalized ev format url w)) = reset_recording s"
proof -
  obtain w1 where "snd (handleFinalized ev format url w) =
     snd (publishState (publish1 ev) (w1\<lparr>cstate := reset_recording (cstate w1)\<rparr>))"
    using handleFinalized_read_ok [OF assms] by blast
  then show ?thesis by (auto simp: publishState_cstate)
qed

lemma handleFinalized_inv:
  assumes "state_inv (cstate w)"
  shows "state_inv (cstate (snd (handleFinalized ev format url w)))"
proof (cases "storage_get_res ev")
  case (Inl e)
  with assms show ?thesis by (simp add: handleFinalized_read_fails)
next
  case (Inr u)
  then have "storage_get_res ev = Inr ()" by simp
  from handleFinalized_cstate [OF this, of format url w] show ?thesis
    by (auto simp: state_inv_def reset_recording_def)
qed

lemma listRecordings_cstate: "cstate (snd (listRecordings ev w)) = cstate w"
  by (simp add: listRecordings_def io_defs split: sum.splits)

lemma stopRecording_cstate: "cstate (snd (stopRecording ev w)) = cstate w"
  by (simp add: stopRecording_def io_defs split: sum.splits)

lemma pauseRecording_inv:
  "state_inv (cstate w) \<Longrightarrow> state_inv (cstate (snd (pauseRecording ev w)))"
  by (auto simp: pauseRecording_def io_defs state_inv_def split: sum.splits prod.splits
      dest!: publishState_cstateD)

lemma resumeRecording_inv:
  "state_inv (cstate w) \<Longrightarrow> state_inv (cstate (snd (resumeRecording ev w)))"
  by (auto simp: resumeRecording_def io_defs state_inv_def split: sum.splits prod.splits
      dest!: publishState_cstateD)

lemma handleCallStatus_inv:
  "state_inv (cstate w) \<Longrightarrow> state_inv (cstate (snd (handleCallStatus ev tab a t c w)))"
  by (auto simp: handleCallStatus_def io_defs state_inv_def stopRecording_def
      split: sum.splits prod.splits dest!: publishState_cstateD)

lemma deleteRecording_cstate: "cstate (snd (deleteRecording ev ident w)) = cstate w"
  by (simp add: deleteRecording_def io_defs Let_def split: sum.splits option.splits)

lemma startRecording_triple: "state_triple state_inv (startRecording ev notes) state_inv"
  unfolding startRecording_def Let_def
  apply (rule triple_bind [OF keeps_storage_get], assumption)
  apply (rule triple_if)
   apply (rule triple_keeps [OF keeps_throw], assumption)
  apply (rule triple_get_state)
  apply (rule triple_if)
   apply (rule triple_keeps [OF keeps_throw], simp)
  apply (rule triple_bind [OF keeps_resolveTeamsTabId], simp)
  subgoal for sto s tabId
    apply (cases "case tabId of None \<Rightarrow> None | Some t \<Rightarrow> if t = 0 then None else Some t")
     apply (simp only: option.case)
     apply (rule triple_keeps [OF keeps_throw], simp)
    apply (simp only: option.case)
    apply (rule triple_modify)
    apply (rule triple_bind)
      apply (simp add: keeps_return keeps_bind keeps_api)
     apply (auto simp: state_inv_def)[1]
    apply (rule triple_bind [OF keeps_ensureOffscreenDocument])
     apply (auto simp: state_inv_def)[1]
    apply (rule triple_modify)
    apply (rule triple_bind [OF keeps_storage_set])
     apply (auto simp: state_inv_def makeFilename_nonempty)[1]
    apply (rule triple_bind [OF keeps_publishState])
     apply (auto simp: state_inv_def makeFilename_nonempty)[1]
    apply (rule triple_get_state)
    apply (rule triple_try_catch)
      apply (simp add: keeps_return keeps_bind keeps_api)
     apply (auto simp: state_inv_def makeFilename_nonempty)[1]
    apply (rule triple_modify)
    apply (rule triple_bind [OF keeps_publishState])
     apply (auto simp: state_inv_def)[1]
    apply (rule triple_keeps [OF keeps_throw])
    apply (auto simp: state_inv_def)[1]
    done
  done

lemma startRecording_inv:
  "state_inv (cstate w) \<Longrightarrow> state_inv (cstate (snd (startRecording ev notes w)))"
  using startRecording_triple unfolding state_triple_def by blast

lemma handleMessage_inv:
  "state_inv (cstate w) \<Longrightarrow> state_inv (cstate (snd (handleMessage ev tab msg w)))"
  by (cases msg)
     (simp_all add: handleMessage_def handleCallStatus_inv startRecording_inv pauseRecording_inv
       resumeRecording_inv stopRecording_cstate handleFinalized_inv deleteRecording_cstate
       io_bind_get_state io_return_def listRecordings_cstate)

lemma onMessage_inv:
  assumes inv: "state_inv (cstate w)"
  shows "state_inv (cstate (snd (onMessage ev tab msg w)))"
proof (cases "msg = Untyped")
  case True
  with inv show ?thesis by (simp add: onMessage_def)
next
  case False
  obtain r w' where h: "handleMessage ev tab msg w = (r, w')"
    by (cases "handleMessage ev tab msg w")
  with inv have "state_inv (cstate w')"
    using handleMessage_inv [of w ev tab msg] by simp
  with False h show ?thesis
    by (cases r) (simp_all add: onMessage_def Let_def publishState_cstate state_inv_def)
qed

lemma onCommand_inv:
  "state_inv (cstate w) \<Longrightarrow> state_inv (cstate (onCommand ev command w))"
  by (simp add: onCommand_def Let_def startRecording_inv stopRecording_cstate pauseRecording_inv
      resumeRecording_inv)

lemma reachable_serially_inv: "reachable_serially w \<Longrightarrow> state_inv (cstate w)"
proof (induction rule: reachable_serially.induct)
  case (serially_init w)
  then show ?case by (simp add: state_inv_def initial_state_def)
next
  case (serially_message w ev sender_tab msg)
  then show ?case by (simp add: onMessage_inv)
next
  case (serially_command w ev command)
  then show ?case by (simp add: onCommand_inv)
next
  case (serially_settings w sto)
  then show ?case by simp
qed

subsection \<open>Handlers that overlap\<close>

lemma onMessage_answer:
  "msg \<noteq> Untyped \<Longrightarrow> onMessage ev tab msg w = answer ev (handleMessage ev tab msg w)"
  by (simp add: onMessage_def answer_def)

lemma pauseRecording_split:
  "pauseRecording ev w =
     (if recordingState (cstate w) \<noteq> Recording then (Inr Undefined, w)
      else io_bind (api (RuntimeSendMessage OFFSCREEN_PAUSE) (sendMessage_res ev OFFSCREEN_PAUSE))
             (\<lambda>r. pauseRecording_resumed ev) w)"
  by (simp add: pauseRecording_def pauseRecording_resumed_def io_bind_get_state io_return_def)

lemma resumeRecording_split:
  "resumeRecording ev w =
     (if recordingState (cstate w) \<noteq> Paused then (Inr Undefined, w)
      else io_bind (api (RuntimeSendMessage OFFSCREEN_RESUME) (sendMessage_res ev OFFSCREEN_RESUME))
             (\<lambda>r. resumeRecording_resumed ev) w)"
  by (simp add: resumeRecording_def resumeRecording_resumed_def io_bind_get_state io_return_def)

text \<open>Run without another message in between, the two halves are the handler.\<close>

lemma pause_not_overlapped:
  "recordingState (cstate w) = Recording \<Longrightarrow>
     onMessage ev tab PAUSE_RECORDING w =
       (case api (RuntimeSendMessage OFFSCREEN_PAUSE) (sendMessage_res ev OFFSCREEN_PAUSE) w of
          (r, w1) \<Rightarrow> answer ev (case r of Inl e \<Rightarrow> (Inl e, w1)
                                | Inr reply \<Rightarrow> pauseRecording_resumed ev w1))"
  by (simp add: onMessage_answer handleMessage_def pauseRecording_split io_bind_def api_def
      split: sum.splits)

lemma answer_fields:
  "recordingState (cstate (snd (answer ev (r, w)))) = recordingState (cstate w)"
  "recordingStartedAt (cstate (snd (answer ev (r, w)))) = recordingStartedAt (cstate w)"
  "currentFilename (cstate (snd (answer ev (r, w)))) = currentFilename (cstate w)"
  by (cases r; simp add: answer_def Let_def publishState_cstate)+

lemma pauseRecording_resumed_cstate:
  "cstate (snd (pauseRecording_resumed ev w)) = (cstate w)\<lparr>recordingState := Paused\<rparr>"
  by (auto simp: pauseRecording_resumed_def io_defs split: sum.splits prod.splits
      dest!: publishState_cstateD)

lemma onMessage_finalized_fields:
  assumes "storage_get_res ev = Inr ()"
  shows "recordingState (cstate (snd (onMessage ev tab (RECORDING_FINALIZED format url) w))) = Idle"
    "recordingStartedAt (cstate (snd (onMessage ev tab (RECORDING_FINALIZED format url) w))) = None"
    "currentFilename (cstate (snd (onMessage ev tab (RECORDING_FINALIZED format url) w))) = []"
proof -
  obtain r w' where h: "handleFinalized ev format url w = (r, w')"
    by (cases "handleFinalized ev format url w")
  obtain s where "cstate (snd (handleFinalized ev format url w)) = reset_recording s"
    using handleFinalized_cstate [OF assms] by blast
  with h have s: "cstate w' = reset_recording s" by simp
  have "onMessage ev tab (RECORDING_FINALIZED format url) w = answer ev (r, w')"
    using h by (simp add: onMessage_answer handleMessage_def)
  then show
    "recordingState (cstate (snd (onMessage ev tab (RECORDING_FINALIZED format url) w))) = Idle"
    "recordingStartedAt (cstate (snd (onMessage ev tab (RECORDING_FINALIZED format url) w))) = None"
    "currentFilename (cstate (snd (onMessage ev tab (RECORDING_FINALIZED format url) w))) = []"
    by (simp_all add: answer_fields s reset_recording_def)
qed

lemma pause_overlapped_finalized:
  assumes "recordingState (cstate w) = Recording" "storage_get_res ev' = Inr ()"
    "sendMessage_res ev OFFSCREEN_PAUSE = Inr reply"
  shows
    "recordingState (cstate (pause_overlapped ev ev' tab (RECORDING_FINALIZED format url) w))
       = Paused"
    "recordingStartedAt (cstate (pause_overlapped ev ev' tab (RECORDING_FINALIZED format url) w))
       = None"
    "currentFilename (cstate (pause_overlapped ev ev' tab (RECORDING_FINALIZED format url) w))
       = []"
proof -
  define w1 where "w1 = w\<lparr>calls := calls w @ [RuntimeSendMessage OFFSCREEN_PAUSE]\<rparr>"
  define w2 where "w2 = snd (onMessage ev' tab (RECORDING_FINALIZED format url) w1)"
  obtain r w3 where r: "pauseRecording_resumed ev w2 = (r, w3)"
    by (cases "pauseRecording_resumed ev w2")
  then have w3: "cstate w3 = (cstate w2)\<lparr>recordingState := Paused\<rparr>"
    using pauseRecording_resumed_cstate [of ev w2] by simp
  have "pause_overlapped ev ev' tab (RECORDING_FINALIZED format url) w = snd (answer ev (r, w3))"
    using assms(1,3) r by (simp add: pause_overlapped_def api_def w1_def w2_def Let_def)
  then show
    "recordingState (cstate (pause_overlapped ev ev' tab (RECORDING_FINALIZED format url) w))
       = Paused"
    "recordingStartedAt (cstate (pause_overlapped ev ev' tab (RECORDING_FINALIZED format url) w))
       = None"
    "currentFilename (cstate (pause_overlapped ev ev' tab (RECORDING_FINALIZED format url) w))
       = []"
    by (simp_all add: answer_fields w3 w2_def onMessage_finalized_fields [OF assms(2)])
qed

lemma serially_overlapping: "reachable_serially w \<Longrightarrow> reachable_overlapping w"
  by (induction rule: reachable_serially.induct) (auto intro: reachable_overlapping.intros)

subsection \<open>The sample run\<close>

lemmas sample_defs = consented_world_def installed_world_def DEFAULT_SETTINGS_def env_ok_def
  publish_ok_def initial_state_def

lemma recording_world_state: "recordingState (cstate recording_world) = Recording"
  by (simp add: recording_world_def onMessage_def handleMessage_def startRecording_def sample_defs
      resolveTeamsTabId_def ensureOffscreenDocument_def publishState_def io_defs or_default_def
      Let_def)

lemma recording_world_reachable: "reachable_serially recording_world"
proof -
  have "reachable_serially installed_world"
    by (rule serially_init) (simp_all add: installed_world_def)
  then have "reachable_serially consented_world"
    unfolding consented_world_def by (rule serially_settings)
  then show ?thesis
    unfolding recording_world_def by (rule serially_message)
qed


subsection \<open>Finalize returns to idle\<close>




subsection \<open>The invariant of the recording state\<close>

text \<open>
  Claim C2, as the spec states it, fails: the handlers overlap, and a state that is not
  idle can be reached with no start time and no file name. In the sample recording a
  \<^verbatim>\<open>PAUSE_RECORDING\<close> request passes its test and waits for the worker's answer; the
  worker's \<^verbatim>\<open>RECORDING_FINALIZED\<close> message is handled meanwhile and resets the state;
  then the pause handler goes on and writes \<^verbatim>\<open>paused\<close>.
\<close>

theorem pause_overlapping_finalize_breaks_invariant:
  "reachable_overlapping (pause_overlapped env_ok env_ok None
      (RECORDING_FINALIZED (Some ''webm'') ''data:audio/webm;base64,GkXf'') recording_world)
   \<and> recordingState (cstate (pause_overlapped env_ok env_ok None
      (RECORDING_FINALIZED (Some ''webm'') ''data:audio/webm;base64,GkXf'') recording_world))
       = Paused
   \<and> recordingStartedAt (cstate (pause_overlapped env_ok env_ok None
      (RECORDING_FINALIZED (Some ''webm'') ''data:audio/webm;base64,GkXf'') recording_world))
       = None
   \<and> currentFilename (cstate (pause_overlapped env_ok env_ok None
      (RECORDING_FINALIZED (Some ''webm'') ''data:audio/webm;base64,GkXf'') recording_world))
       = []"
proof -
  have "reachable_overlapping recording_world"
    using recording_world_reachable by (rule serially_overlapping)
  then have "reachable_overlapping (pause_overlapped env_ok env_ok None
      (RECORDING_FINALIZED (Some ''webm'') ''data:audio/webm;base64,GkXf'') recording_world)"
    by (rule overlapping_pause)
  moreover have "storage_get_res env_ok = Inr ()"
    "sendMessage_res env_ok OFFSCREEN_PAUSE = Inr Reply_ok"
    by (simp_all add: env_ok_def)
  ultimately show ?thesis
    using pause_overlapped_finalized [OF recording_world_state] by simp
qed

text \<open>
  Claim C2, amended. In every world the listeners reach from the initial state when
  each message or command is handled to its end before the next one starts, whatever
  the messages (start, pause, resume, stop, call status, finalize and the others), their
  senders, the keyboard commands and the answers of the environment, a state that is not
  idle has a start time and a file name.
\<close>

theorem serially_reachable_has_start_and_filename:
  "reachable_serially w \<Longrightarrow> recordingState (cstate w) \<noteq> Idle \<Longrightarrow>
     recordingStartedAt (cstate w) \<noteq> None \<and> currentFilename (cstate w) \<noteq> []"
  using reachable_serially_inv [of w] by (simp add: state_inv_def)

theorem recording_world_has_start_and_filename:
  "reachable_serially recording_world \<and> recordingState (cstate recording_world) \<noteq> Idle
   \<and> recordingStartedAt (cstate recording_world) \<noteq> None
   \<and> currentFilename (cstate recording_world) \<noteq> []"
  using serially_reachable_has_start_and_filename [of recording_world]
    recording_world_reachable recording_world_state
  by simp

subsection \<open>Start without consent\<close>

text \<open>
  Claim C4, as the spec states it, fails: the request is refused, but the listener's
  \<^verbatim>\<open>catch\<close> writes the message of the refusal to \<^verbatim>\<open>lastError\<close>. On the installed
  settings (consent not given) \<^verbatim>\<open>lastError\<close> goes from empty to the message.
\<close>

theorem start_without_consent_writes_lastError:
  "stored_consentAccepted (store installed_world) = Some False
   \<and> lastError (cstate installed_world) = []
   \<and> lastError (cstate (snd (onMessage env_ok None (START_RECORDING None) installed_world)))
       = ''Consent disclaimer must be accepted.''"
  by (simp add: onMessage_def handleMessage_def startRecording_def io_bind_storage_get io_throw_def
      Let_def error_text_def publishState_cstate sample_defs)

text \<open>
  Claim C4, amended. A \<^verbatim>\<open>START_RECORDING\<close> request received while the stored
  \<^verbatim>\<open>consentAccepted\<close> is not true is refused with an error response, and it changes
  one field of the state: \<^verbatim>\<open>lastError\<close> becomes the message of that response. The
  message is \<^verbatim>\<open>Consent disclaimer must be accepted.\<close> whenever the read of the
  settings returns (when the read itself is rejected, the message is that of the
  rejection).
\<close>

theorem start_without_consent:
  assumes "stored_consentAccepted (store w) \<noteq> Some True"
  shows "(storage_get_res ev = Inr () \<longrightarrow>
            fst (onMessage ev tab (START_RECORDING notes) w) =
              Some (Response_error ''Consent disclaimer must be accepted.'')
            \<and> cstate (snd (onMessage ev tab (START_RECORDING notes) w)) =
              (cstate w)\<lparr>lastError := ''Consent disclaimer must be accepted.''\<rparr>)
       \<and> (\<exists>msg. fst (onMessage ev tab (START_RECORDING notes) w) = Some (Response_error msg)
              \<and> cstate (snd (onMessage ev tab (START_RECORDING notes) w)) =
                  (cstate w)\<lparr>lastError := msg\<rparr>)"
proof (cases "storage_get_res ev")
  case (Inl e)
  then show ?thesis
    by (simp add: onMessage_def handleMessage_def startRecording_def io_bind_storage_get
        Let_def publishState_cstate)
next
  case (Inr u)
  with assms show ?thesis
    by (simp add: onMessage_def handleMessage_def startRecording_def io_bind_storage_get
        io_throw_def Let_def error_text_def publishState_cstate)
qed

theorem start_without_consent_installed:
  "stored_consentAccepted (store installed_world) \<noteq> Some True
   \<and> storage_get_res env_ok = Inr ()
   \<and> fst (onMessage env_ok None (START_RECORDING None) installed_world) =
           Some (Response_error ''Consent disclaimer must be accepted.'')
   \<and> cstate (snd (onMessage env_ok None (START_RECORDING None) installed_world)) =
           (cstate installed_world)\<lparr>lastError := ''Consent disclaimer must be accepted.''\<rparr>"
proof -
  have h: "stored_consentAccepted (store installed_world) \<noteq> Some True"
    by (simp add: installed_world_def DEFAULT_SETTINGS_def)
  have r: "storage_get_res env_ok = Inr ()"
    by (simp add: env_ok_def)
  show ?thesis
    using h r start_without_consent [OF h, of env_ok None None] by simp
qed

subsection \<open>Pause and resume in the wrong state\<close>

text \<open>
  Claim C5, as the spec states it, fails: \<^verbatim>\<open>pauseRecording\<close> returns at its guard
  without throwing, so the listener answers \<^verbatim>\<open>ok: true\<close>. In the installed world
  (idle) a \<^verbatim>\<open>PAUSE_RECORDING\<close> request gets the success response.
\<close>

theorem pause_when_idle_answers_ok:
  "recordingState (cstate installed_world) = Idle
   \<and> fst (onMessage env_ok None PAUSE_RECORDING installed_world) = Some (Response_ok Undefined)"
  by (simp add: onMessage_def handleMessage_def pauseRecording_def io_bind_get_state io_return_def
      sample_defs)

text \<open>
  Claim C5, amended. A \<^verbatim>\<open>PAUSE_RECORDING\<close> request received while the state is not
  recording, and a \<^verbatim>\<open>RESUME_RECORDING\<close> request received while it is not paused, do
  nothing: the caller gets the success response with no result, and the state, the
  storage and the calls made are as before.
\<close>

theorem pause_resume_in_wrong_state:
  "(recordingState (cstate w) \<noteq> Recording \<longrightarrow>
      onMessage ev tab PAUSE_RECORDING w = (Some (Response_ok Undefined), w))
   \<and> (recordingState (cstate w) \<noteq> Paused \<longrightarrow>
      onMessage ev tab RESUME_RECORDING w = (Some (Response_ok Undefined), w))"
  by (simp add: onMessage_def handleMessage_def pauseRecording_def resumeRecording_def
      io_bind_get_state io_return_def)

theorem pause_resume_when_idle:
  "recordingState (cstate installed_world) \<noteq> Recording
   \<and> onMessage env_ok None PAUSE_RECORDING installed_world =
       (Some (Response_ok Undefined), installed_world)
   \<and> recordingState (cstate installed_world) \<noteq> Paused
   \<and> onMessage env_ok None RESUME_RECORDING installed_world =
       (Some (Response_ok Undefined), installed_world)"
proof -
  have h: "recordingState (cstate installed_world) = Idle"
    by (simp add: installed_world_def initial_state_def)
  show ?thesis
    using h pause_resume_in_wrong_state [of installed_world env_ok None] by simp
qed

subsection \<open>The history\<close>

text \<open>
  Claim C9. When \<^verbatim>\<open>handleFinalized\<close> persists the record, that is when its two reads
  of the storage return and its three persistence steps succeed, the stored list is
  the new record followed by the first 199 records of the list stored before (the empty
  list when none was stored): the new record is at index 0, the length is at most 200,
  and what is dropped is dropped from the end.
\<close>

theorem finalize_prepends_and_caps:
  assumes "storage_get_res ev = Inr ()" "storage_get_recordings_res ev = Inr ()"
    "download_artifact_res ev = Inr d" "download_sidecar_res ev = Inr d'"
    "storage_set_res ev = Inr ()"
  shows "let new = make_record ev ((cstate w)\<lparr>latestDownloadId := Some d\<rparr>) (store w)
                     (or_default format ''webm'') (finalFilename ev (cstate w) (store w) format) d;
             old = (case stored_recordings (store w) of None \<Rightarrow> [] | Some rs \<Rightarrow> rs);
             kept = new # take 199 old
         in stored_recordings (store (snd (handleFinalized ev format url w))) = Some kept
            \<and> kept = take 200 (new # old) \<and> kept ! 0 = new \<and> length kept \<le> 200"
  using assms(2-)
  unfolding handleFinalized_def assms(1) io_bind_get_state io_bind_storage_get_ok Let_def
    try_finally_reset
  by (simp add: publishState_recordings io_bind_def api_def storage_set_def modify_state_def
      get_state_def storage_get_def io_return_def)

theorem finalize_sample_history:
  "storage_get_res env_ok = Inr () \<and> storage_get_recordings_res env_ok = Inr ()
   \<and> download_artifact_res env_ok = Inr 11 \<and> download_sidecar_res env_ok = Inr 12
   \<and> storage_set_res env_ok = Inr ()
   \<and> (\<exists>kept. stored_recordings (store (snd (handleFinalized env_ok (Some ''webm'')
          ''data:audio/webm;base64,GkXf'' recording_world))) = Some kept
        \<and> rec_downloadId (kept ! 0) = 11 \<and> length kept \<le> 200)"
proof -
  have h: "storage_get_res env_ok = Inr ()" "storage_get_recordings_res env_ok = Inr ()"
    "download_artifact_res env_ok = Inr 11" "download_sidecar_res env_ok = Inr 12"
    "storage_set_res env_ok = Inr ()"
    by (simp_all add: env_ok_def)
  show ?thesis
    using h finalize_prepends_and_caps [OF h, of recording_world "Some ''webm''"
        "''data:audio/webm;base64,GkXf''"]
    by (simp add: Let_def make_record_def)
qed

subsection \<open>The extension of the saved file\<close>

lemma file_ext_append:
  "CHR ''.'' \<notin> set ext \<Longrightarrow> file_ext (stem @ ''.'' @ ext) = ext"
proof -
  assume "CHR ''.'' \<notin> set ext"
  then have "\<And>x. x \<in> set (rev ext) \<Longrightarrow> x \<noteq> CHR ''.''" by auto
  then have "takeWhile (\<lambda>c. c \<noteq> CHR ''.'') (rev ext @ CHR ''.'' # rev stem) =
      rev ext @ takeWhile (\<lambda>c. c \<noteq> CHR ''.'') (CHR ''.'' # rev stem)"
    by (rule takeWhile_append2)
  then show ?thesis by (simp add: file_ext_def)
qed

lemma normalizeExtension_no_dot: "CHR ''.'' \<notin> set (normalizeExtension f)"
  by (simp add: normalizeExtension_def)

lemma file_ext_applyFormatToFilename:
  "file_ext (applyFormatToFilename filename format) = normalizeExtension format"
proof -
  have "\<exists>stem. applyFormatToFilename filename format = stem @ ''.'' @ normalizeExtension format"
    by (auto simp: applyFormatToFilename_def Let_def split: option.splits)
  then show ?thesis
    using file_ext_append [OF normalizeExtension_no_dot] by metis
qed

lemma file_ext_finalFilename:
  "file_ext (finalFilename ev st sto negotiated) =
     normalizeExtension (Some (or_default negotiated ''webm''))"
  by (simp add: finalFilename_def Let_def file_ext_applyFormatToFilename)

lemma finalize_format:
  "finalize wev blob requested = Inr fin \<Longrightarrow> fin_format fin = ''wav'' \<or> fin_format fin = ''webm''"
  by (auto simp: finalize_def sum_bind_def split: if_splits sum.splits)

lemma finalize_mp3:
  "finalize wev blob ''mp3'' =
     (case blobToDataUrl_res wev blob of Inl e \<Rightarrow> Inl e
      | Inr url \<Rightarrow> Inr \<lparr>fin_format = ''webm'', fin_blobDataUrl = url\<rparr>)"
  by (simp add: finalize_def sum_bind_def)

lemma publishState_calls_mono: "set (calls w) \<subseteq> set (calls (snd (publishState pe w)))"
  using publishState_calls [of pe w] by auto

lemma handleFinalized_download:
  assumes "storage_get_res ev = Inr ()"
  shows "DownloadsDownload (Data_url url) (finalFilename ev (cstate w) (store w) negotiated)
     \<in> set (calls (snd (handleFinalized ev negotiated url w)))"
  unfolding handleFinalized_def assms io_bind_get_state io_bind_storage_get_ok Let_def
    try_finally_reset
  apply (rule subsetD [OF publishState_calls_mono])
  apply (simp add: io_defs split: sum.splits)
  done

text \<open>
  Claim C6. When the requested format is \<^verbatim>\<open>mp3\<close> the worker's \<^verbatim>\<open>finalize\<close>
  returns the format \<^verbatim>\<open>webm\<close> (it returns as soon as the blob can be read as a
  data URL), and for the negotiated format \<^verbatim>\<open>webm\<close> the name the coordinator
  computes has the extension \<^verbatim>\<open>webm\<close>. In general, whatever format was requested and
  whatever name was chosen at start, the extension of the final name is the format
  \<^verbatim>\<open>finalize\<close> returned; it is a function of the format in the message alone, and
  the artifact is downloaded under that name (the download is issued once the read of
  the settings has returned).
\<close>

theorem extension_follows_negotiated_format:
  "(blobToDataUrl_res wev blob = Inr url \<longrightarrow>
      finalize wev blob ''mp3'' = Inr \<lparr>fin_format = ''webm'', fin_blobDataUrl = url\<rparr>)
   \<and> (finalize wev blob ''mp3'' = Inr fin \<longrightarrow> fin_format fin = ''webm'')
   \<and> file_ext (finalFilename ev st sto (Some ''webm'')) = ''webm''
   \<and> (finalize wev blob requested = Inr fin' \<longrightarrow>
        file_ext (finalFilename ev st sto (Some (fin_format fin'))) = fin_format fin')
   \<and> file_ext (finalFilename ev st sto negotiated) =
        normalizeExtension (Some (or_default negotiated ''webm''))
   \<and> (storage_get_res ev = Inr () \<longrightarrow>
        DownloadsDownload (Data_url data) (finalFilename ev (cstate w) (store w) negotiated)
          \<in> set (calls (snd (handleFinalized ev negotiated data w))))"
proof -
  have mp3: "finalize wev blob ''mp3'' = Inr fin \<longrightarrow> fin_format fin = ''webm''"
    by (auto simp: finalize_mp3 split: sum.splits)
  have any: "finalize wev blob requested = Inr fin' \<longrightarrow>
        file_ext (finalFilename ev st sto (Some (fin_format fin'))) = fin_format fin'"
    using finalize_format [of wev blob requested fin']
    by (auto simp: file_ext_finalFilename normalizeExtension_def or_default_def)
  show ?thesis
    using mp3 any handleFinalized_download [of ev data w negotiated]
    by (simp add: finalize_mp3 file_ext_finalFilename normalizeExtension_def or_default_def)
qed

lemma wav_requested_final_name:
  "finalFilename env_ok wav_requested_state DEFAULT_SETTINGS (Some ''webm'') =
     ''TeamsRecordings/Teams_2024-01-15_09-05_TeamsCall.webm''"
  by (simp add: finalFilename_def applyFormatToFilename_def match_ext_def normalizeExtension_def
      or_default_def wav_requested_state_def initial_state_def Let_def)

text \<open>
  A recording requested as \<^verbatim>\<open>mp3\<close>, and one requested as \<^verbatim>\<open>wav\<close> whose decoding
  fails: both are finalized as \<^verbatim>\<open>webm\<close>, and a name chosen with \<^verbatim>\<open>.wav\<close> is saved
  with \<^verbatim>\<open>.webm\<close>.
\<close>

theorem mp3_and_failed_wav_are_saved_as_webm:
  "blobToDataUrl_res decode_fails sample_blob = Inr ''data:audio/webm;base64,''
   \<and> finalize decode_fails sample_blob ''mp3'' =
        Inr \<lparr>fin_format = ''webm'', fin_blobDataUrl = ''data:audio/webm;base64,''\<rparr>
   \<and> finalize decode_fails sample_blob ''wav'' =
        Inr \<lparr>fin_format = ''webm'', fin_blobDataUrl = ''data:audio/webm;base64,''\<rparr>
   \<and> file_ext (finalFilename env_ok wav_requested_state DEFAULT_SETTINGS (Some ''webm''))
        = ''webm''
   \<and> finalFilename env_ok wav_requested_state DEFAULT_SETTINGS (Some ''webm'') =
        ''TeamsRecordings/Teams_2024-01-15_09-05_TeamsCall.webm''
   \<and> storage_get_res env_ok = Inr ()
   \<and> DownloadsDownload (Data_url ''data:audio/webm;base64,GkXf'')
         (finalFilename env_ok (cstate recording_world) (store recording_world) (Some ''webm''))
       \<in> set (calls (snd (handleFinalized env_ok (Some ''webm'')
                ''data:audio/webm;base64,GkXf'' recording_world)))"
proof -
  have url: "blobToDataUrl_res decode_fails sample_blob = Inr ''data:audio/webm;base64,''"
    by (simp add: decode_fails_def mic_denied_def)
  have read: "storage_get_res env_ok = Inr ()"
    by (simp add: env_ok_def)
  have wav: "finalize decode_fails sample_blob ''wav'' =
        Inr \<lparr>fin_format = ''webm'', fin_blobDataUrl = ''data:audio/webm;base64,''\<rparr>"
    by (simp add: finalize_def convertWebmToWav_def sum_bind_def decode_fails_def mic_denied_def)
  show ?thesis
    using url wav read wav_requested_final_name
      extension_follows_negotiated_format [of decode_fails sample_blob
        "''data:audio/webm;base64,''" _ env_ok wav_requested_state DEFAULT_SETTINGS _ _
        "Some ''webm''" "''data:audio/webm;base64,GkXf''" recording_world]
    by simp
qed

subsection \<open>Polling an unchanged page\<close>

text \<open>
  Claim C8. When the observation \<^verbatim>\<open>pollCallState\<close> computes from the page equals
  the stored one in its three fields, the poll returns the state as it is and makes no
  call: no \<^verbatim>\<open>renderPanel\<close>, no \<^verbatim>\<open>CALL_STATUS_UPDATE\<close>. So a second poll of the same
  page, after any first one, makes no call and changes nothing.
\<close>

theorem poll_unchanged_page_is_silent:
  "(detectCallActive pg = obs_callActive st \<and> page_meetingTitle pg = obs_meetingTitle st
      \<and> page_participantCount pg = obs_participantCount st
      \<longrightarrow> pollCallState pg st = (st, []))
   \<and> snd (pollCallState pg (fst (pollCallState pg st))) = []
   \<and> fst (pollCallState pg (fst (pollCallState pg st))) = fst (pollCallState pg st)"
  by (simp add: pollCallState_def Let_def)

lemma meeting_page_observation:
  "detectCallActive meeting_page = True" "page_meetingTitle meeting_page = ''Weekly sync''"
  "page_participantCount meeting_page = Some 12"
  by (simp_all add: detectCallActive_def page_meetingTitle_def page_participantCount_def
      meeting_page_def toLowerCase_def first_element_def or_default_def trim_def is_space_def
      parseParticipantCount_def is_digit_def number_of_digits_def Let_def)

theorem poll_of_observed_meeting_is_silent:
  "detectCallActive meeting_page = obs_callActive observed_meeting
   \<and> page_meetingTitle meeting_page = obs_meetingTitle observed_meeting
   \<and> page_participantCount meeting_page = obs_participantCount observed_meeting
   \<and> pollCallState meeting_page observed_meeting = (observed_meeting, [])
   \<and> snd (pollCallState meeting_page initial_observer_state) \<noteq> []
   \<and> snd (pollCallState meeting_page (fst (pollCallState meeting_page initial_observer_state)))
       = []"
proof -
  have h: "detectCallActive meeting_page = obs_callActive observed_meeting"
    "page_meetingTitle meeting_page = obs_meetingTitle observed_meeting"
    "page_participantCount meeting_page = obs_participantCount observed_meeting"
    by (simp_all add: meeting_page_observation observed_meeting_def)
  have first: "snd (pollCallState meeting_page initial_observer_state) \<noteq> []"
    by (simp add: pollCallState_def Let_def meeting_page_observation initial_observer_state_def)
  show ?thesis
    using h first poll_unchanged_page_is_silent [of meeting_page observed_meeting]
      poll_unchanged_page_is_silent [of meeting_page initial_observer_state]
    by simp
qed

subsection \<open>The range of a written sample\<close>

lemma sint_ToInt16:
  "- 32768 \<le> v \<Longrightarrow> v \<le> 32767 \<Longrightarrow> sint (ToInt16 (Num v)) = trunc v"
proof -
  assume a: "- 32768 \<le> v" "v \<le> 32767"
  have "- 32768 \<le> trunc v \<and> trunc v \<le> 32767"
    using a by (auto simp: trunc_def le_floor_iff ceiling_le_iff)
  then show ?thesis
    by (simp add: ToInt16_def sint_sbintrunc' signed_take_bit_int_eq_self)
qed

lemma clamp_sample_cases:
  "clamp_sample (Num r) = Num (max (- 1) (min 1 r))"
  "clamp_sample Infinity = Num 1"
  "clamp_sample Neg_Infinity = Num (- 1)"
  "clamp_sample NaN = NaN"
  by (simp_all add: clamp_sample_def max_def min_def)

lemma sample_value_of_clamped:
  assumes "clamp_sample s = Num c" "- 1 \<le> c" "c \<le> 1"
  shows "sample_value s = Num (if c < 0 then c * 32768 else c * 32767)
     \<and> - 32768 \<le> (if c < 0 then c * 32768 else c * 32767)
     \<and> (if c < 0 then c * 32768 else c * 32767) \<le> 32767"
  using assms by (simp add: sample_value_def Let_def)

text \<open>
  Claim C10. For every sample that is not \<^verbatim>\<open>NaN\<close>, finite or infinite, inside or
  outside \<open>[-1, 1]\<close>: the clamped value \<open>c\<close> lies in \<open>[-1, 1]\<close> (for a finite sample
  \<open>r\<close> it is \<open>max (-1) (min 1 r)\<close>), the value handed to \<^verbatim>\<open>setInt16\<close> is
  \<open>c * 0x8000\<close> when \<open>c\<close> is negative and \<open>c * 0x7fff\<close> otherwise, it lies in
  \<open>[-32768, 32767]\<close>, and the 16-bit integer written is that value truncated, without
  wrap-around. The sample \<open>-1\<close> is written as \<open>-32768\<close> and \<open>+1\<close> as \<open>32767\<close>.
\<close>

theorem sample_in_int16_range:
  assumes "s \<noteq> NaN"
  shows "\<exists>c v. clamp_sample s = Num c \<and> - 1 \<le> c \<and> c \<le> 1
          \<and> (case s of Num r \<Rightarrow> c = max (- 1) (min 1 r) | Infinity \<Rightarrow> c = 1
               | Neg_Infinity \<Rightarrow> c = - 1 | NaN \<Rightarrow> True)
          \<and> sample_value s = Num v
          \<and> v = (if c < 0 then c * 32768 else c * 32767)
          \<and> - 32768 \<le> v \<and> v \<le> 32767
          \<and> sint (ToInt16 (sample_value s)) = trunc v
          \<and> - 32768 \<le> sint (ToInt16 (sample_value s))
          \<and> sint (ToInt16 (sample_value s)) \<le> 32767
          \<and> sint (ToInt16 (sample_value (Num (- 1)))) = - 32768
          \<and> sint (ToInt16 (sample_value (Num 1))) = 32767"
proof -
  obtain c where c: "clamp_sample s = Num c" "- 1 \<le> c" "c \<le> 1"
    "case s of Num r \<Rightarrow> c = max (- 1) (min 1 r) | Infinity \<Rightarrow> c = 1
       | Neg_Infinity \<Rightarrow> c = - 1 | NaN \<Rightarrow> True"
    using assms by (cases s) (auto simp: clamp_sample_cases)
  define v where "v = (if c < 0 then c * 32768 else c * 32767)"
  have v: "sample_value s = Num v" "- 32768 \<le> v" "v \<le> 32767"
    using sample_value_of_clamped [OF c(1-3)] by (simp_all add: v_def)
  have t: "sint (ToInt16 (sample_value s)) = trunc v"
    using v by (simp add: sint_ToInt16)
  have r: "- 32768 \<le> trunc v" "trunc v \<le> 32767"
    using v(2,3) by (auto simp: trunc_def le_floor_iff ceiling_le_iff)
  have lo: "sint (ToInt16 (sample_value (Num (- 1)))) = - 32768"
    by (simp add: sample_value_def clamp_sample_cases Let_def sint_ToInt16 trunc_def)
  have hi: "sint (ToInt16 (sample_value (Num 1))) = 32767"
    by (simp add: sample_value_def clamp_sample_cases Let_def sint_ToInt16 trunc_def)
  show ?thesis
    using c v t r lo hi v_def by (intro exI [of _ c] exI [of _ v]) simp
qed

text \<open>Half scale is written as 16383, and a sample of \<open>-3\<close> as \<open>-32768\<close>.\<close>

theorem half_scale_and_overdriven_samples:
  "Num (1 / 2) \<noteq> NaN \<and> sint (ToInt16 (sample_value (Num (1 / 2)))) = 16383
   \<and> Num (- 3) \<noteq> NaN \<and> sint (ToInt16 (sample_value (Num (- 3)))) = - 32768"
proof -
  obtain c v where h: "clamp_sample (Num (1 / 2)) = Num c"
      "v = (if c < 0 then c * 32768 else c * 32767)"
      "sint (ToInt16 (sample_value (Num (1 / 2)))) = trunc v"
    using sample_in_int16_range [of "Num (1 / 2)"] by auto
  have "c = 1 / 2" using h(1) by (simp add: clamp_sample_cases)
  then have v: "v = 32767 / 2" using h(2) by simp
  have a: "sint (ToInt16 (sample_value (Num (1 / 2)))) = 16383"
    unfolding h(3) v by (simp add: trunc_def)
  obtain c' v' where h': "clamp_sample (Num (- 3)) = Num c'"
      "v' = (if c' < 0 then c' * 32768 else c' * 32767)"
      "sint (ToInt16 (sample_value (Num (- 3)))) = trunc v'"
    using sample_in_int16_range [of "Num (- 3)"] by auto
  have "c' = - 1" using h'(1) by (simp add: clamp_sample_cases)
  then have v': "v' = - 32768" using h'(2) by simp
  have b: "sint (ToInt16 (sample_value (Num (- 3)))) = - 32768"
    unfolding h'(3) v' by (simp add: trunc_def)
  show ?thesis using a b by simp
qed

subsection \<open>The bytes of the WAV file\<close>

lemma length_le16 [simp]: "length (le16 w) = 2" by (simp add: le16_def)
lemma length_le32 [simp]: "length (le32 w) = 4" by (simp add: le32_def)
lemma length_ascii [simp]: "length (ascii s) = length s" by (simp add: ascii_def)

lemma write_bytes_append:
  "length pre = off \<Longrightarrow> length bs \<le> length rest \<Longrightarrow>
     write_bytes (pre @ rest) off bs = pre @ bs @ drop (length bs) rest"
proof (induction bs arbitrary: pre off rest)
  case Nil
  then show ?case by simp
next
  case (Cons b bs)
  then obtain r rs where rest: "rest = r # rs" by (cases rest) auto
  have "write_bytes ((pre @ [b]) @ rs) (Suc off) bs = (pre @ [b]) @ bs @ drop (length bs) rs"
    using Cons.prems rest by (intro Cons.IH) auto
  then show ?case using Cons.prems rest by (simp add: list_update_append)
qed

lemma set_bytes_padded:
  "off = length pre \<Longrightarrow> length bs \<le> n \<Longrightarrow>
     set_bytes (padded pre n) off bs = Inr (padded (pre @ bs) (n - length bs))"
  by (simp add: set_bytes_def padded_def write_bytes_append)

lemma setUint32_padded:
  "off = length pre \<Longrightarrow> 4 \<le> n \<Longrightarrow>
     setUint32 (padded pre n) off v = Inr (padded (pre @ le32 (of_nat v)) (n - 4))"
  by (simp add: setUint32_def set_bytes_padded)

lemma setUint16_padded:
  "off = length pre \<Longrightarrow> 2 \<le> n \<Longrightarrow>
     setUint16 (padded pre n) off v = Inr (padded (pre @ le16 (of_nat v)) (n - 2))"
  by (simp add: setUint16_def set_bytes_padded)

lemma setInt16_padded:
  "off = length pre \<Longrightarrow> 2 \<le> n \<Longrightarrow>
     setInt16 (padded pre n) off v = Inr (padded (pre @ le16 (ToInt16 v)) (n - 2))"
  by (simp add: setInt16_def set_bytes_padded)

lemma writeString_padded:
  "off = length pre \<Longrightarrow> length s \<le> n \<Longrightarrow>
     writeString (padded pre n) off s = Inr (padded (pre @ ascii s) (n - length s))"
proof (induction s arbitrary: pre off n)
  case Nil
  then show ?case by (simp add: ascii_def)
next
  case (Cons c cs)
  have "setUint8 (padded pre n) off (of_char c) = Inr (padded (pre @ [of_nat (of_char c)]) (n - 1))"
    using Cons.prems by (simp add: setUint8_def set_bytes_padded)
  moreover have "writeString (padded (pre @ [of_nat (of_char c)]) (n - 1)) (Suc off) cs =
      Inr (padded ((pre @ [of_nat (of_char c)]) @ ascii cs) (n - 1 - length cs))"
    using Cons.prems by (intro Cons.IH) auto
  ultimately show ?case by (simp add: ascii_def)
qed

lemma sum_bind_Inr [simp]: "sum_bind (Inr x) f = f x"
  by (simp add: sum_bind_def)

lemma header_written:
  "sum_bind (writeString (replicate (44 + d) 0) 0 ''RIFF'') (\<lambda>view.
   sum_bind (setUint32 view 4 a) (\<lambda>view.
   sum_bind (writeString view 8 ''WAVE'') (\<lambda>view.
   sum_bind (writeString view 12 ''fmt '') (\<lambda>view.
   sum_bind (setUint32 view 16 16) (\<lambda>view.
   sum_bind (setUint16 view 20 1) (\<lambda>view.
   sum_bind (setUint16 view 22 nch) (\<lambda>view.
   sum_bind (setUint32 view 24 r) (\<lambda>view.
   sum_bind (setUint32 view 28 br) (\<lambda>view.
   sum_bind (setUint16 view 32 ba) (\<lambda>view.
   sum_bind (setUint16 view 34 16) (\<lambda>view.
   sum_bind (writeString view 36 ''data'') (\<lambda>view.
   sum_bind (setUint32 view 40 k) K))))))))))))
   = K (padded (ascii ''RIFF'' @ le32 (of_nat a) @ ascii ''WAVE'' @ ascii ''fmt '' @ le32 16
        @ le16 1 @ le16 (of_nat nch) @ le32 (of_nat r) @ le32 (of_nat br) @ le16 (of_nat ba)
        @ le16 16 @ ascii ''data'' @ le32 (of_nat k)) d)"
proof -
  have init: "replicate (44 + d) 0 = padded [] (44 + d)" by (simp add: padded_def)
  show ?thesis
    unfolding init
    by (simp add: writeString_padded setUint32_padded setUint16_padded del: writeString.simps)
qed

lemma unat_byte: "unat (ucast (drop_bit n w) :: byte) = (unat w div 2 ^ n) mod 256"
  unfolding unsigned_ucast_eq unat_drop_bit_eq
  by (simp add: take_bit_eq_mod drop_bit_eq_div)

lemma unat_byte0: "unat (ucast w :: byte) = unat w mod 256"
  by (simp add: unsigned_ucast_eq take_bit_eq_mod)

lemma byte_split: "(u::nat) div k = u div k mod 256 + 256 * (u div (k * 256))"
  by (simp add: div_mult2_eq)

lemma le_value_le32: "le_value (le32 w) = unat w"
proof -
  define u where "u = unat w"
  have "u < 2 ^ 32" unfolding u_def using unsigned_less [of w, where 'a = nat] by simp
  then have c: "u div 16777216 < 256" by simp
  have e1: "u = u mod 256 + 256 * (u div 256)" by simp
  have e2: "u div 256 = u div 256 mod 256 + 256 * (u div 65536)"
    using byte_split [of u 256] by simp
  have e3: "u div 65536 = u div 65536 mod 256 + 256 * (u div 16777216)"
    using byte_split [of u 65536] by simp
  have e4: "u div 16777216 mod 256 = u div 16777216" using c by simp
  have "le_value (le32 w) = u mod 256 + 256 * (u div 256 mod 256 + 256 * (u div 65536 mod 256
      + 256 * (u div 16777216 mod 256)))"
    by (simp add: le32_def unat_byte0 unat_drop_bit_eq drop_bit_eq_div [where ?'a = nat] u_def)
  also have "\<dots> = u" using e1 e2 e3 e4 by presburger
  finally show ?thesis by (simp add: u_def)
qed

lemma le_value_le16: "le_value (le16 w) = unat w"
proof -
  define u where "u = unat w"
  have "u < 2 ^ 16" unfolding u_def using unsigned_less [of w, where 'a = nat] by simp
  then have c: "u div 256 < 256" by simp
  have e1: "u = u mod 256 + 256 * (u div 256)" by simp
  have e4: "u div 256 mod 256 = u div 256" using c by simp
  have "le_value (le16 w) = u mod 256 + 256 * (u div 256 mod 256)"
    by (simp add: le16_def unat_byte0 unat_drop_bit_eq drop_bit_eq_div [where ?'a = nat] u_def)
  also have "\<dots> = u" using e1 e4 by presburger
  finally show ?thesis by (simp add: u_def)
qed

declare write_channels.simps [simp del] write_frames.simps [simp del]

lemma write_channels_padded:
  "off = length pre \<Longrightarrow> 2 * (nch - ch) \<le> n \<Longrightarrow>
     write_channels b nch i ch (padded pre n) off =
       Inr (padded (pre @ concat (map (\<lambda>c. le16 (ToInt16 (sample_value (buf_channelData b c i))))
                                      [ch..<nch])) (n - 2 * (nch - ch)),
            off + 2 * (nch - ch))"
proof (induction "nch - ch" arbitrary: ch pre off n)
  case 0
  then show ?case by (subst write_channels.simps) simp
next
  case (Suc k)
  then have lt: "ch < nch" and k: "k = nch - Suc ch" by auto
  have step: "setInt16 (padded pre n) off (sample_value (buf_channelData b ch i)) =
      Inr (padded (pre @ le16 (ToInt16 (sample_value (buf_channelData b ch i)))) (n - 2))"
    using Suc.prems lt by (intro setInt16_padded) auto
  have rest: "write_channels b nch i (Suc ch)
        (padded (pre @ le16 (ToInt16 (sample_value (buf_channelData b ch i)))) (n - 2)) (off + 2) =
      Inr (padded ((pre @ le16 (ToInt16 (sample_value (buf_channelData b ch i))))
             @ concat (map (\<lambda>c. le16 (ToInt16 (sample_value (buf_channelData b c i))))
                           [Suc ch..<nch])) (n - 2 - 2 * (nch - Suc ch)),
           off + 2 + 2 * (nch - Suc ch))"
    using Suc.prems lt by (intro Suc.hyps(1) k) auto
  have "n - 2 - 2 * (nch - Suc ch) = n - 2 * (nch - ch)"
    "off + 2 + 2 * (nch - Suc ch) = off + 2 * (nch - ch)"
    using lt by auto
  then show ?case
    using lt step rest by (subst write_channels.simps) (simp add: upt_conv_Cons)
qed



lemma length_wav_frame [simp]: "length (wav_frame b nch i) = 2 * nch"
  unfolding wav_frame_def by (induction nch) simp_all

lemma write_frames_padded:
  "off = length pre \<Longrightarrow> 2 * nch * (s - i) \<le> n \<Longrightarrow>
     write_frames b nch s i (padded pre n) off =
       Inr (padded (pre @ concat (map (wav_frame b nch) [i..<s])) (n - 2 * nch * (s - i)),
            off + 2 * nch * (s - i))"
proof (induction "s - i" arbitrary: i pre off n)
  case 0
  then show ?case by (subst write_frames.simps) simp
next
  case (Suc k)
  then have lt: "i < s" and k: "k = s - Suc i" by auto
  have "s - i = Suc (s - Suc i)" using lt by simp
  then have split: "2 * nch * (s - i) = 2 * nch + 2 * nch * (s - Suc i)"
    by (simp only: mult_Suc_right)
  have fits: "2 * (nch - 0) \<le> n" using Suc.prems(2) split by simp
  have step: "write_channels b nch i 0 (padded pre n) off =
      Inr (padded (pre @ wav_frame b nch i) (n - 2 * nch), off + 2 * nch)"
    using write_channels_padded [OF Suc.prems(1) fits, of b i] by (simp add: wav_frame_def)
  have off': "off + 2 * nch = length (pre @ wav_frame b nch i)"
    using Suc.prems(1) by simp
  have fits': "2 * nch * (s - Suc i) \<le> n - 2 * nch"
    using Suc.prems(2) split by simp
  have rest: "write_frames b nch s (Suc i) (padded (pre @ wav_frame b nch i) (n - 2 * nch))
        (off + 2 * nch) =
      Inr (padded ((pre @ wav_frame b nch i) @ concat (map (wav_frame b nch) [Suc i..<s]))
             (n - 2 * nch - 2 * nch * (s - Suc i)),
           off + 2 * nch + 2 * nch * (s - Suc i))"
    using Suc.hyps(1) [OF k off' fits'] .
  have eqs: "n - 2 * nch - 2 * nch * (s - Suc i) = n - 2 * nch * (s - i)"
    "off + 2 * nch + 2 * nch * (s - Suc i) = off + 2 * nch * (s - i)"
    by (simp_all only: split diff_diff_left add.assoc)
  have list: "[i..<s] = i # [Suc i..<s]" using lt by (simp add: upt_conv_Cons)
  show ?case
    by (subst write_frames.simps) (simp only: lt if_True step sum.case prod.case rest eqs list
        list.map concat.simps append_assoc)
qed


lemma padded_0 [simp]: "padded xs 0 = xs"
  by (simp add: padded_def)

lemma length_wav_header [simp]: "length (wav_header nch r d) = 44"
  by (simp add: wav_header_def)

lemma audioBufferToWavBlob_eq:
  "audioBufferToWavBlob b =
     Inr \<lparr>blob_data = wav_header (min 2 (buf_numberOfChannels b)) (buf_sampleRate b)
                         (buf_length b * (min 2 (buf_numberOfChannels b) * 2))
                       @ wav_data b (min 2 (buf_numberOfChannels b)),
          blob_type = ''audio/wav''\<rparr>"
proof -
  define nch where "nch = min 2 (buf_numberOfChannels b)"
  define d where "d = buf_length b * (nch * 2)"
  have fits: "2 * nch * (buf_length b - 0) \<le> d" by (simp add: d_def)
  have frames: "write_frames b nch (buf_length b) 0
        (padded (wav_header nch (buf_sampleRate b) d) d) 44 =
      Inr (padded (wav_header nch (buf_sampleRate b) d @ wav_data b nch) 0, 44 + d)"
    using write_frames_padded [of 44 "wav_header nch (buf_sampleRate b) d" nch "buf_length b" 0 d b]
      fits
    by (simp add: wav_data_def d_def)
  show ?thesis
    unfolding audioBufferToWavBlob_def Let_def header_written
    unfolding nch_def [symmetric] d_def [symmetric]
    using frames by (simp add: wav_header_def)
qed


lemma block_of_concat:
  "(\<And>x. x \<in> set xs \<Longrightarrow> length (f x) = k) \<Longrightarrow> i < length xs \<Longrightarrow>
     take k (drop (i * k) (concat (map f xs))) = f (xs ! i)"
proof (induction xs arbitrary: i)
  case Nil
  then show ?case by simp
next
  case (Cons x xs)
  have len: "length (f x) = k" using Cons.prems(1) by simp
  show ?case
  proof (cases i)
    case 0
    then show ?thesis using len by simp
  next
    case (Suc j)
    then have "take k (drop (j * k) (concat (map f xs))) = f (xs ! j)"
      using Cons.prems by (intro Cons.IH) auto
    then show ?thesis using Suc len by simp
  qed
qed

lemma sample_of_wav_data:
  assumes "i < buf_length b" "ch < nch"
  shows "take 2 (drop (2 * (i * nch + ch)) (wav_data b nch)) =
           le16 (ToInt16 (sample_value (buf_channelData b ch i)))"
proof -
  let ?W = "wav_data b nch"
  let ?X = "drop (i * (2 * nch)) ?W"
  have frame: "take (2 * nch) ?X = wav_frame b nch i"
    using block_of_concat [of "[0..<buf_length b]" "wav_frame b nch" "2 * nch" i] assms(1)
    by (simp add: wav_data_def)
  have chan: "take 2 (drop (ch * 2) (wav_frame b nch i)) =
      le16 (ToInt16 (sample_value (buf_channelData b ch i)))"
    using block_of_concat [of "[0..<nch]"
        "\<lambda>c. le16 (ToInt16 (sample_value (buf_channelData b c i)))" 2 ch] assms(2)
    by (simp add: wav_frame_def)
  have "drop (2 * (i * nch + ch)) ?W = drop (ch * 2) ?X"
    by (simp add: algebra_simps)
  moreover have "take 2 (drop (ch * 2) ?X) = take 2 (drop (ch * 2) (take (2 * nch) ?X))"
    using assms(2) by (simp add: drop_take min_def)
  ultimately show ?thesis using frame chan by simp
qed

lemma length_wav_data [simp]: "length (wav_data b nch) = buf_length b * (nch * 2)"
  unfolding wav_data_def by (induction "buf_length b" arbitrary: b) (simp_all add: length_concat o_def sum_list_triv)


lemma header_fields:
  "take 4 (wav_header nch r d @ rest) = ascii ''RIFF''"
  "take 4 (drop 4 (wav_header nch r d @ rest)) = le32 (of_nat (36 + d))"
  "take 4 (drop 8 (wav_header nch r d @ rest)) = ascii ''WAVE''"
  "take 4 (drop 12 (wav_header nch r d @ rest)) = ascii ''fmt ''"
  "take 4 (drop 16 (wav_header nch r d @ rest)) = le32 16"
  "take 2 (drop 20 (wav_header nch r d @ rest)) = le16 1"
  "take 2 (drop 22 (wav_header nch r d @ rest)) = le16 (of_nat nch)"
  "take 4 (drop 24 (wav_header nch r d @ rest)) = le32 (of_nat r)"
  "take 4 (drop 28 (wav_header nch r d @ rest)) = le32 (of_nat (r * (nch * 2)))"
  "take 2 (drop 32 (wav_header nch r d @ rest)) = le16 (of_nat (nch * 2))"
  "take 2 (drop 34 (wav_header nch r d @ rest)) = le16 16"
  "take 4 (drop 36 (wav_header nch r d @ rest)) = ascii ''data''"
  "take 4 (drop 40 (wav_header nch r d @ rest)) = le32 (of_nat d)"
  by (simp_all add: wav_header_def)

text \<open>
  Claim C7. For a buffer of \<open>s\<close> frames, \<open>c\<close> channels and sample rate \<open>r\<close> the
  encoder returns, without a \<^verbatim>\<open>RangeError\<close>, a blob of type \<^verbatim>\<open>audio/wav\<close> of
  exactly \<open>44 + s * min 2 c * 2\<close> bytes: the header \<^term>\<open>wav_header\<close>, then the
  samples. Field by field: \<^verbatim>\<open>RIFF\<close> at 0, the chunk size \<open>36 + dataSize\<close> at 4,
  \<^verbatim>\<open>WAVE\<close>, \<^verbatim>\<open>fmt \<close> with size 16, format 1, the channel count, the sample rate,
  the byte rate \<open>r * blockAlign\<close>, the block align, 16 bits per sample, \<^verbatim>\<open>data\<close> and
  \<open>dataSize\<close>; the sample of channel \<open>ch\<close> in frame \<open>i\<close> is the 16-bit
  little-endian integer at offset \<open>44 + 2 * (i * min 2 c + ch)\<close>. A 32-bit field holds
  its value modulo \<open>2^32\<close>, as \<^verbatim>\<open>setUint32\<close> writes it: the value itself whenever
  it is below \<open>2^32\<close>, so for every file below 4 GiB.
\<close>

theorem wav_blob_layout:
  "let nch = min 2 (buf_numberOfChannels b); r = buf_sampleRate b; s = buf_length b;
       dataSize = s * nch * 2
   in \<exists>out. audioBufferToWavBlob b = Inr \<lparr>blob_data = out, blob_type = ''audio/wav''\<rparr>
        \<and> length out = 44 + dataSize
        \<and> out = wav_header nch r dataSize @ wav_data b nch
        \<and> take 4 out = ascii ''RIFF''
        \<and> le_value (take 4 (drop 4 out)) = (36 + dataSize) mod 2 ^ 32
        \<and> take 4 (drop 8 out) = ascii ''WAVE''
        \<and> take 4 (drop 12 out) = ascii ''fmt ''
        \<and> le_value (take 4 (drop 16 out)) = 16
        \<and> le_value (take 2 (drop 20 out)) = 1
        \<and> le_value (take 2 (drop 22 out)) = nch
        \<and> le_value (take 4 (drop 24 out)) = r mod 2 ^ 32
        \<and> le_value (take 4 (drop 28 out)) = (r * (nch * 2)) mod 2 ^ 32
        \<and> le_value (take 2 (drop 32 out)) = nch * 2
        \<and> le_value (take 2 (drop 34 out)) = 16
        \<and> take 4 (drop 36 out) = ascii ''data''
        \<and> le_value (take 4 (drop 40 out)) = dataSize mod 2 ^ 32
        \<and> (36 + dataSize < 2 ^ 32 \<longrightarrow>
              le_value (take 4 (drop 4 out)) = 36 + dataSize
              \<and> le_value (take 4 (drop 40 out)) = dataSize)
        \<and> (r < 2 ^ 32 \<longrightarrow> le_value (take 4 (drop 24 out)) = r)
        \<and> (r * (nch * 2) < 2 ^ 32 \<longrightarrow> le_value (take 4 (drop 28 out)) = r * (nch * 2))
        \<and> (\<forall>i ch. i < s \<longrightarrow> ch < nch \<longrightarrow>
              take 2 (drop (44 + 2 * (i * nch + ch)) out) =
                le16 (ToInt16 (sample_value (buf_channelData b ch i))))"
proof -
  define nch where "nch = min 2 (buf_numberOfChannels b)"
  define d where "d = buf_length b * nch * 2"
  define out where "out = wav_header nch (buf_sampleRate b) d @ wav_data b nch"
  have nch: "nch \<le> 2" by (simp add: nch_def)
  have eq: "audioBufferToWavBlob b = Inr \<lparr>blob_data = out, blob_type = ''audio/wav''\<rparr>"
    by (simp add: audioBufferToWavBlob_eq out_def nch_def d_def mult.assoc)
  have len: "length out = 44 + d" by (simp add: out_def d_def)
  have small: "nch mod 65536 = nch" "nch * 2 mod 65536 = nch * 2" using nch by simp_all
  have fields:
    "take 4 out = ascii ''RIFF''"
    "le_value (take 4 (drop 4 out)) = (36 + d) mod 2 ^ 32"
    "take 4 (drop 8 out) = ascii ''WAVE''"
    "take 4 (drop 12 out) = ascii ''fmt ''"
    "le_value (take 4 (drop 16 out)) = 16"
    "le_value (take 2 (drop 20 out)) = 1"
    "le_value (take 2 (drop 22 out)) = nch"
    "le_value (take 4 (drop 24 out)) = buf_sampleRate b mod 2 ^ 32"
    "le_value (take 4 (drop 28 out)) = (buf_sampleRate b * (nch * 2)) mod 2 ^ 32"
    "le_value (take 2 (drop 32 out)) = nch * 2"
    "le_value (take 2 (drop 34 out)) = 16"
    "take 4 (drop 36 out) = ascii ''data''"
    "le_value (take 4 (drop 40 out)) = d mod 2 ^ 32"
    unfolding out_def header_fields le_value_le32 le_value_le16 unat_of_nat
    using small by simp_all
  have samples: "\<forall>i ch. i < buf_length b \<longrightarrow> ch < nch \<longrightarrow>
      take 2 (drop (44 + 2 * (i * nch + ch)) out) =
        le16 (ToInt16 (sample_value (buf_channelData b ch i)))"
    using sample_of_wav_data [of _ b _ nch] by (simp add: out_def)
  have exact:
    "36 + d < 2 ^ 32 \<longrightarrow>
       le_value (take 4 (drop 4 out)) = 36 + d \<and> le_value (take 4 (drop 40 out)) = d"
    "buf_sampleRate b < 2 ^ 32 \<longrightarrow> le_value (take 4 (drop 24 out)) = buf_sampleRate b"
    "buf_sampleRate b * (nch * 2) < 2 ^ 32 \<longrightarrow>
       le_value (take 4 (drop 28 out)) = buf_sampleRate b * (nch * 2)"
    using fields(2,8,9,13) by simp_all
  show ?thesis
    unfolding Let_def nch_def [symmetric] d_def [symmetric]
    using eq len fields samples exact out_def by (intro exI [of _ out]) simp
qed


text \<open>The 52 bytes of the two stereo frames of \<^term>\<open>stereo_buffer\<close>.\<close>

theorem stereo_buffer_bytes:
  "audioBufferToWavBlob stereo_buffer =
     Inr \<lparr>blob_data =
            [82, 73, 70, 70, 44, 0, 0, 0, 87, 65, 86, 69, 102, 109, 116, 32,
             16, 0, 0, 0, 1, 0, 2, 0, 128, 187, 0, 0, 0, 238, 2, 0, 4, 0, 16, 0,
             100, 97, 116, 97, 8, 0, 0, 0,
             255, 63, 255, 127, 0, 128, 0, 0],
          blob_type = ''audio/wav''\<rparr>"
proof -
  obtain out where o: "audioBufferToWavBlob stereo_buffer =
        Inr \<lparr>blob_data = out, blob_type = ''audio/wav''\<rparr>"
      "out = wav_header 2 48000 8 @ wav_data stereo_buffer 2"
    using wav_blob_layout [of stereo_buffer] by (auto simp: Let_def stereo_buffer_def)
  have h: "wav_header 2 48000 8 =
      [82, 73, 70, 70, 44, 0, 0, 0, 87, 65, 86, 69, 102, 109, 116, 32,
       16, 0, 0, 0, 1, 0, 2, 0, 128, 187, 0, 0, 0, 238, 2, 0, 4, 0, 16, 0,
       100, 97, 116, 97, 8, 0, 0, 0]"
    by (simp add: wav_header_def ascii_def le32_def le16_def drop_bit_eq_div)
  have d: "wav_data stereo_buffer 2 = [255, 63, 255, 127, 0, 128, 0, 0]"
  proof -
    have u: "[0..<2] = [0, Suc 0]" by (simp add: upt_rec)
    show ?thesis
      unfolding wav_data_def wav_frame_def u
      by (simp add: stereo_buffer_def u sample_value_def clamp_sample_def ToInt16_def trunc_def
          le16_def Let_def drop_bit_eq_div)
  qed
  show ?thesis using o h d by simp
qed

subsection \<open>A refused microphone in mic-only mode\<close>

lemmas worker_defs = get_worker_def modify_worker_def worker_api_def stop_tracks_def

lemma cleanup_returns: "fst (cleanup wev k) = Inr ()"
  by (simp add: cleanup_def worker_defs io_return_def io_bind_def try_catch_def
      split: option.splits sum.splits)

lemma cleanup_releases:
  "mediaRecorder (snd (cleanup wev k)) = None" "mixedStream (snd (cleanup wev k)) = None"
  "tabStream (snd (cleanup wev k)) = None" "micStream (snd (cleanup wev k)) = None"
  "audioContext (snd (cleanup wev k)) = None" "audioDestination (snd (cleanup wev k)) = None"
  "chunks (snd (cleanup wev k)) = []"
  by (simp_all add: cleanup_def worker_defs io_return_def io_bind_def try_catch_def
      split: option.splits sum.splits)

lemma cleanup_stops:
  "tabStream k = Some s \<or> micStream k = Some s \<or> mixedStream k = Some s \<Longrightarrow>
     StopTracks s \<in> set (worker_calls (snd (cleanup wev k)))"
  by (auto simp: cleanup_def worker_defs io_return_def io_bind_def try_catch_def
      split: option.splits sum.splits)

lemma cleanup_closes:
  "audioContext k = Some c \<Longrightarrow> CloseAudioContext c \<in> set (worker_calls (snd (cleanup wev k)))"
  by (auto simp: cleanup_def worker_defs io_return_def io_bind_def try_catch_def
      split: option.splits sum.splits)

lemma startCapture_mic_fails:
  assumes "p_sourceMode payload = ''mic''" "getUserMedia_mic_res wev = Inl e"
  shows "startCapture wev payload k =
     (Inl ''Microphone permission is required for mic-only recording.'',
      (snd (cleanup wev k))\<lparr>activeFormat := or_default (p_format payload) ''webm'',
         worker_calls := worker_calls (snd (cleanup wev k)) @ [GetUserMedia_mic],
         micStream := None\<rparr>)"
proof -
  obtain k1 where c: "cleanup wev k = (Inr (), k1)"
    using cleanup_returns [of wev k] by (cases "cleanup wev k") simp
  show ?thesis
    using assms
    by (simp add: startCapture_def c io_bind_def io_throw_def io_return_def try_catch_def
        modify_worker_def worker_api_def or_default_def Let_def)
qed

text \<open>
  The worker's half of claim C3 holds: in mic-only mode a refused microphone makes the
  listener answer with the error, every resource variable is null afterwards, and the
  streams and the audio context the worker held before have been stopped and closed.
\<close>

lemma mic_failure_in_worker:
  assumes "p_sourceMode payload = ''mic''" "getUserMedia_mic_res wev = Inl e"
  shows "fst (offscreen_onMessage wev (OFFSCREEN_START payload) k) =
           Reply_error ''Microphone permission is required for mic-only recording.''
    \<and> mediaRecorder (snd (offscreen_onMessage wev (OFFSCREEN_START payload) k)) = None
    \<and> mixedStream (snd (offscreen_onMessage wev (OFFSCREEN_START payload) k)) = None
    \<and> tabStream (snd (offscreen_onMessage wev (OFFSCREEN_START payload) k)) = None
    \<and> micStream (snd (offscreen_onMessage wev (OFFSCREEN_START payload) k)) = None
    \<and> audioContext (snd (offscreen_onMessage wev (OFFSCREEN_START payload) k)) = None
    \<and> audioDestination (snd (offscreen_onMessage wev (OFFSCREEN_START payload) k)) = None
    \<and> chunks (snd (offscreen_onMessage wev (OFFSCREEN_START payload) k)) = []
    \<and> (\<forall>s. tabStream k = Some s \<or> micStream k = Some s \<or> mixedStream k = Some s \<longrightarrow>
          StopTracks s \<in> set (worker_calls (snd (offscreen_onMessage wev (OFFSCREEN_START payload) k))))
    \<and> (\<forall>c. audioContext k = Some c \<longrightarrow>
          CloseAudioContext c \<in> set (worker_calls (snd (offscreen_onMessage wev (OFFSCREEN_START payload) k))))"
  using cleanup_stops [of k _ wev] cleanup_closes [of k _ wev]
  by (simp add: offscreen_onMessage_def handle_def startCapture_mic_fails [OF assms]
      cleanup_releases)

lemma mic_only_reply:
  "offscreen_onMessage mic_denied mic_only_start initial_worker =
     (Reply_error ''Microphone permission is required for mic-only recording.'',
      initial_worker\<lparr>worker_calls := [GetUserMedia_mic]\<rparr>)"
  by (simp add: offscreen_onMessage_def handle_def startCapture_def cleanup_def mic_only_start_def
      mic_denied_def initial_worker_def worker_defs io_return_def io_throw_def io_bind_def
      try_catch_def or_default_def Let_def)

lemma mic_only_answer:
  "sendMessage_res env_mic_denied mic_only_start =
     Inr (Reply_error ''Microphone permission is required for mic-only recording.'')"
  by (simp add: env_mic_denied_def answered_by_def mic_only_reply env_ok_def)

text \<open>
  The coordinator's \<^verbatim>\<open>catch\<close> does roll back and report, when the promise of
  \<^verbatim>\<open>sendMessage\<close> is rejected.
\<close>

lemma start_rejected_rolls_back:
  "fst (onMessage env_no_listener (Some 7) (START_RECORDING None) mic_only_world) =
       Some (Response_error ''Could not establish connection. Receiving end does not exist.'')
   \<and> recordingState (cstate (snd (onMessage env_no_listener (Some 7) (START_RECORDING None)
        mic_only_world))) = Idle
   \<and> recordingStartedAt (cstate (snd (onMessage env_no_listener (Some 7) (START_RECORDING None)
        mic_only_world))) = None
   \<and> currentFilename (cstate (snd (onMessage env_no_listener (Some 7) (START_RECORDING None)
        mic_only_world))) = []"
  by (simp add: onMessage_def handleMessage_def startRecording_def mic_only_world_def sample_defs
      env_no_listener_def error_text_def
      resolveTeamsTabId_def ensureOffscreenDocument_def publishState_def io_defs or_default_def
      Let_def)

text \<open>
  Claim C3 fails on the code. The settings ask for \<^verbatim>\<open>mic\<close>, the coordinator sends
  \<^verbatim>\<open>OFFSCREEN_START\<close>, the worker's microphone is refused and its listener answers
  \<^verbatim>\<open>{ ok: false, error }\<close>. That answer resolves the coordinator's promise, the
  \<^verbatim>\<open>catch\<close> does not run, and the coordinator never reads the answer: the caller
  gets \<^verbatim>\<open>ok: true\<close>, the state stays recording with its start time, and
  \<^verbatim>\<open>lastError\<close> stays empty.
\<close>

theorem mic_failure_is_not_reported:
  "stored_sourceMode (store mic_only_world) = Some ''mic''
   \<and> getUserMedia_mic_res mic_denied = Inl ''Permission denied''
   \<and> RuntimeSendMessage mic_only_start
        \<in> set (calls (snd (onMessage env_mic_denied (Some 7) (START_RECORDING None)
             mic_only_world)))
   \<and> offscreen_onMessage mic_denied mic_only_start initial_worker =
       (Reply_error ''Microphone permission is required for mic-only recording.'',
        initial_worker\<lparr>worker_calls := [GetUserMedia_mic]\<rparr>)
   \<and> sendMessage_res env_mic_denied mic_only_start =
       Inr (Reply_error ''Microphone permission is required for mic-only recording.'')
   \<and> fst (onMessage env_mic_denied (Some 7) (START_RECORDING None) mic_only_world) =
       Some (Response_ok Undefined)
   \<and> recordingState (cstate (snd (onMessage env_mic_denied (Some 7) (START_RECORDING None)
        mic_only_world))) = Recording
   \<and> recordingStartedAt (cstate (snd (onMessage env_mic_denied (Some 7) (START_RECORDING None)
        mic_only_world))) = Some 1705309500000
   \<and> lastError (cstate (snd (onMessage env_mic_denied (Some 7) (START_RECORDING None)
        mic_only_world))) = []"
proof -
  have run: "fst (onMessage env_mic_denied (Some 7) (START_RECORDING None) mic_only_world) =
       Some (Response_ok Undefined)
   \<and> recordingState (cstate (snd (onMessage env_mic_denied (Some 7) (START_RECORDING None)
        mic_only_world))) = Recording
   \<and> recordingStartedAt (cstate (snd (onMessage env_mic_denied (Some 7) (START_RECORDING None)
        mic_only_world))) = Some 1705309500000
   \<and> lastError (cstate (snd (onMessage env_mic_denied (Some 7) (START_RECORDING None)
        mic_only_world))) = []
   \<and> RuntimeSendMessage mic_only_start
        \<in> set (calls (snd (onMessage env_mic_denied (Some 7) (START_RECORDING None)
             mic_only_world)))"
    by (simp add: onMessage_def handleMessage_def startRecording_def mic_only_world_def sample_defs
      env_mic_denied_def answered_by_def mic_only_reply [unfolded mic_only_start_def]
      mic_only_start_def
      resolveTeamsTabId_def ensureOffscreenDocument_def publishState_def io_defs or_default_def
      Let_def)
  have given: "stored_sourceMode (store mic_only_world) = Some ''mic''"
    "getUserMedia_mic_res mic_denied = Inl ''Permission denied''"
    by (simp_all add: mic_only_world_def mic_denied_def sample_defs)
  show ?thesis using run given mic_only_reply mic_only_answer by simp
qed

end
